theory Spec2Isabelle
  imports Complex_Main "HOL-Library.Product_Lexorder"
begin

section \<open>JavaScript values\<close>

text \<open>
  A JavaScript Number is a double: its value as a rational, or one of the three
  special values. The sign of zero is not modelled. Where the program adds or
  subtracts amounts, the exact result is rounded to a double by \<open>to_double\<close> of
  the environment below. The arithmetic on \<open>page\<close>, \<open>limit\<close>, \<open>month\<close> and
  \<open>year\<close> is taken exactly: these are integers far below 2^53 in the requests
  considered, and doubles are exact there.
\<close>

datatype jsnum = Fin rat | PInf | NInf | NaN

text \<open>
  The scalar values a JSON or url-encoded request body can carry in a field. A String
  is the list of its code units and \<open>length\<close> is its \<open>length\<close>; the type
  \<open>string\<close> has the code units below 256.
\<close>

datatype jsval = Undefined | Null | JBool bool | JNum jsnum | JStr string

text \<open>
  The built-ins of the JavaScript engine and of the libraries that the controller
  calls and whose text is not part of the repository are collected in one record,
  the environment of one request. \<open>StringToNumber\<close> is ToNumber applied to a
  String, \<open>parseFloat_str\<close> and \<open>parseInt_str\<close> are \<open>parseFloat\<close> and
  \<open>parseInt\<close> on a String, \<open>NumberToString\<close> is ToString on a Number,
  \<open>Date_parse\<close> is the time value of \<open>new Date(s)\<close> for a String (None is
  Invalid Date), \<open>LocalTZA\<close> is the offset of local time from UTC in milliseconds,
  \<open>Date_now\<close> is the time value of \<open>new Date()\<close>, \<open>isValidObjectId\<close> is
  \<open>mongoose.isValidObjectId\<close> on a route parameter, \<open>new_ObjectId k\<close> is the
  identifier Mongoose gives to the k-th document constructed during the request,
  \<open>String_trim\<close> is \<open>String.prototype.trim\<close> (it strips the white space and
  line terminators of Unicode from both ends) and \<open>to_double\<close> rounds an exact
  result to the nearest double, an infinity when it overflows.
\<close>

record js_runtime =
  StringToNumber :: "string \<Rightarrow> jsnum"
  parseFloat_str :: "string \<Rightarrow> jsnum"
  parseInt_str :: "string \<Rightarrow> jsnum"
  NumberToString :: "jsnum \<Rightarrow> string"
  Date_parse :: "string \<Rightarrow> int option"
  LocalTZA :: "int \<Rightarrow> int"
  Date_now :: int
  isValidObjectId :: "string \<Rightarrow> bool"
  new_ObjectId :: "nat \<Rightarrow> string"
  String_trim :: "string \<Rightarrow> string"
  to_double :: "rat \<Rightarrow> jsnum"

text \<open>ToBoolean: what \<open>if (v)\<close>, \<open>!v\<close> and \<open>a && b\<close> test.\<close>

fun truthy :: "jsval \<Rightarrow> bool" where
  "truthy Undefined = False"
| "truthy Null = False"
| "truthy (JBool b) = b"
| "truthy (JNum (Fin r)) = (r \<noteq> 0)"
| "truthy (JNum NaN) = False"
| "truthy (JNum _) = True"
| "truthy (JStr s) = (s \<noteq> [])"

fun ToNumber :: "js_runtime \<Rightarrow> jsval \<Rightarrow> jsnum" where
  "ToNumber rt Undefined = NaN"
| "ToNumber rt Null = Fin 0"
| "ToNumber rt (JBool b) = (if b then Fin 1 else Fin 0)"
| "ToNumber rt (JNum n) = n"
| "ToNumber rt (JStr s) = StringToNumber rt s"

text \<open>\<open>x <= y\<close> and \<open>x > y\<close> on Numbers: false as soon as one side is NaN.\<close>

fun num_le :: "jsnum \<Rightarrow> jsnum \<Rightarrow> bool" where
  "num_le NaN _ = False"
| "num_le _ NaN = False"
| "num_le NInf _ = True"
| "num_le _ PInf = True"
| "num_le (Fin a) (Fin b) = (a \<le> b)"
| "num_le _ _ = False"

fun num_gt :: "jsnum \<Rightarrow> jsnum \<Rightarrow> bool" where
  "num_gt NaN _ = False"
| "num_gt _ NaN = False"
| "num_gt PInf PInf = False"
| "num_gt PInf _ = True"
| "num_gt NInf NInf = False"
| "num_gt _ NInf = True"
| "num_gt (Fin a) (Fin b) = (a > b)"
| "num_gt _ _ = False"

text \<open>\<open>v <= 0\<close> and \<open>v > 0\<close> for a value of any type: the operand is converted by ToNumber.\<close>

definition le_zero :: "js_runtime \<Rightarrow> jsval \<Rightarrow> bool" where
  "le_zero rt v = num_le (ToNumber rt v) (Fin 0)"

definition gt_zero :: "js_runtime \<Rightarrow> jsval \<Rightarrow> bool" where
  "gt_zero rt v = num_gt (ToNumber rt v) (Fin 0)"

fun num_sub :: "jsnum \<Rightarrow> jsnum \<Rightarrow> jsnum" where
  "num_sub NaN _ = NaN"
| "num_sub _ NaN = NaN"
| "num_sub (Fin a) (Fin b) = Fin (a - b)"
| "num_sub PInf PInf = NaN"
| "num_sub NInf NInf = NaN"
| "num_sub PInf _ = PInf"
| "num_sub NInf _ = NInf"
| "num_sub (Fin a) PInf = NInf"
| "num_sub (Fin a) NInf = PInf"

fun num_sgn :: "jsnum \<Rightarrow> int" where
  "num_sgn (Fin a) = (if a < 0 then - 1 else if a = 0 then 0 else 1)"
| "num_sgn PInf = 1"
| "num_sgn NInf = - 1"
| "num_sgn NaN = 0"

fun num_mul :: "jsnum \<Rightarrow> jsnum \<Rightarrow> jsnum" where
  "num_mul NaN _ = NaN"
| "num_mul _ NaN = NaN"
| "num_mul (Fin a) (Fin b) = Fin (a * b)"
| "num_mul x y =
     (if num_sgn x * num_sgn y = 0 then NaN
      else if num_sgn x * num_sgn y < 0 then NInf else PInf)"

fun num_div :: "jsnum \<Rightarrow> jsnum \<Rightarrow> jsnum" where
  "num_div NaN _ = NaN"
| "num_div _ NaN = NaN"
| "num_div (Fin a) (Fin b) =
     (if b \<noteq> 0 then Fin (a / b)
      else if a = 0 then NaN else if a < 0 then NInf else PInf)"
| "num_div (Fin a) _ = Fin 0"
| "num_div x (Fin b) =
     (if num_sgn x * (if b < 0 then - 1 else 1) < 0 then NInf else PInf)"
| "num_div _ _ = NaN"

text \<open>\<open>Math.ceil\<close>.\<close>

fun Math_ceil :: "jsnum \<Rightarrow> jsnum" where
  "Math_ceil (Fin a) = Fin (of_int \<lceil>a\<rceil>)"
| "Math_ceil x = x"

text \<open>
  \<open>parseFloat(v)\<close> converts its argument to a String first. On a Number the result
  is the Number again; \<open>true\<close>, \<open>false\<close>, \<open>null\<close> and \<open>undefined\<close> give NaN.
\<close>

fun parseFloat :: "js_runtime \<Rightarrow> jsval \<Rightarrow> jsnum" where
  "parseFloat rt (JStr s) = parseFloat_str rt s"
| "parseFloat rt (JNum n) = n"
| "parseFloat rt _ = NaN"

text \<open>\<open>['income', 'expense'].includes(v)\<close>.\<close>

definition is_income_or_expense :: "jsval \<Rightarrow> bool" where
  "is_income_or_expense v = (v = JStr ''income'' \<or> v = JStr ''expense'')"

subsection \<open>Dates\<close>

text \<open>
  A valid Date is its time value, the milliseconds since the epoch, as an int; a Date
  object is an \<open>int option\<close> with None for Invalid Date. The constructor
  \<open>new Date(year, monthIndex, day)\<close> follows ECMAScript: the arguments are truncated
  to integers, a year from 0 to 99 means 1900 + year, months beyond 0..11 carry into
  the year, the day counts from 1 so that day 0 is the last day of the month before,
  the time of day is 00:00:00.000 local time, and a time value beyond 8.64e15 in
  absolute value is Invalid Date.
\<close>

definition msPerDay :: int where
  "msPerDay = 86400000"

definition DayFromYear :: "int \<Rightarrow> int" where
  "DayFromYear y = 365 * (y - 1970) + (y - 1969) div 4 - (y - 1901) div 100 + (y - 1601) div 400"

definition InLeapYear :: "int \<Rightarrow> bool" where
  "InLeapYear y = ((y mod 4 = 0 \<and> y mod 100 \<noteq> 0) \<or> y mod 400 = 0)"

definition DaysBeforeMonth :: "bool \<Rightarrow> int \<Rightarrow> int" where
  "DaysBeforeMonth leap mn =
     [0, 31, 59, 90, 120, 151, 181, 212, 243, 273, 304, 334] ! nat mn
       + (if leap \<and> 2 \<le> mn then 1 else 0)"

definition MakeDay :: "int \<Rightarrow> int \<Rightarrow> int \<Rightarrow> int" where
  "MakeDay y m dt =
     (let ym = y + m div 12; mn = m mod 12
      in DayFromYear ym + DaysBeforeMonth (InLeapYear ym) mn + dt - 1)"

definition ToInteger :: "rat \<Rightarrow> int" where
  "ToInteger r = (if 0 \<le> r then \<lfloor>r\<rfloor> else \<lceil>r\<rceil>)"

definition TimeClip :: "int \<Rightarrow> int option" where
  "TimeClip t = (if \<bar>t\<bar> \<le> 8640000000000000 then Some t else None)"

fun Date_ymd :: "js_runtime \<Rightarrow> jsnum \<Rightarrow> jsnum \<Rightarrow> jsnum \<Rightarrow> int option" where
  "Date_ymd rt (Fin y) (Fin m) (Fin d) =
     (let yi = ToInteger y;
          yr = (if 0 \<le> yi \<and> yi \<le> 99 then 1900 + yi else yi);
          t = MakeDay yr (ToInteger m) (ToInteger d) * msPerDay
      in TimeClip (t - LocalTZA rt t))"
| "Date_ymd rt _ _ _ = None"

text \<open>
  \<open>new Date(v)\<close> with one argument: a String is parsed, anything else is converted
  to a Number and taken as the time value.
\<close>

fun Date_of_num :: "jsnum \<Rightarrow> int option" where
  "Date_of_num (Fin r) = TimeClip (ToInteger r)"
| "Date_of_num _ = None"

fun new_Date :: "js_runtime \<Rightarrow> jsval \<Rightarrow> int option" where
  "new_Date rt (JStr s) = Date_parse rt s"
| "new_Date rt v = Date_of_num (ToNumber rt v)"

section \<open>The transaction schema\<close>

text \<open>
  A stored transaction: the fields of \<open>models/transactionSchema.js\<close>, the
  identifier and the two timestamps that \<open>timestamps: true\<close> adds.
\<close>

record txn =
  tid :: string
  userId :: string
  date :: int
  description :: string
  category :: string
  type :: string
  amount :: jsnum
  createdAt :: int
  updatedAt :: int

text \<open>
  The object handed to \<open>new Transaction({...})\<close> or to \<open>insertMany\<close>, before
  Mongoose has cast and validated it. The date is always a Date object and the amount
  always the result of \<open>parseFloat\<close>; the other fields are whatever the caller wrote.
\<close>

record candidate =
  c_userId :: string
  c_date :: "int option"
  c_description :: jsval
  c_category :: jsval
  c_type :: jsval
  c_amount :: jsnum

text \<open>
  One entry of \<open>error.errors\<close> of a Mongoose ValidationError: the message of a
  declared validator, a failed cast at a path, or a value outside an enum at a path.
\<close>

datatype verror = ValidatorError string | CastError string | EnumError string string

definition categories :: "string list" where
  "categories =
     [''Food & Dining'', ''Transportation'', ''Shopping'', ''Entertainment'',
      ''Bills & Utilities'', ''Healthcare'', ''Education'', ''Travel'', ''Business'',
      ''Income'', ''Other'']"

definition types :: "string list" where
  "types = [''income'', ''expense'']"

text \<open>
  Mongoose casts the value of a String path: a number or boolean becomes its text,
  \<open>null\<close> and \<open>undefined\<close> stay absent (the empty string stands for absent here:
  the required validator rejects both alike).
\<close>

fun cast_string :: "js_runtime \<Rightarrow> jsval \<Rightarrow> string" where
  "cast_string rt (JStr s) = s"
| "cast_string rt (JNum n) = NumberToString rt n"
| "cast_string rt (JBool b) = (if b then ''true'' else ''false'')"
| "cast_string rt _ = []"

text \<open>\<open>description\<close>: the setter of \<open>trim: true\<close>, then \<open>required\<close>, then \<open>maxlength\<close>.\<close>

definition cast_description :: "js_runtime \<Rightarrow> jsval \<Rightarrow> string" where
  "cast_description rt v = String_trim rt (cast_string rt v)"

definition description_error :: "js_runtime \<Rightarrow> jsval \<Rightarrow> verror option" where
  "description_error rt v =
     (if cast_description rt v = [] then Some (ValidatorError ''Description is required'')
      else if 200 < length (cast_description rt v)
      then Some (ValidatorError ''Description cannot exceed 200 characters'')
      else None)"

text \<open>\<open>category\<close> and \<open>type\<close>: \<open>required\<close>, then \<open>enum\<close>.\<close>

definition category_error :: "js_runtime \<Rightarrow> jsval \<Rightarrow> verror option" where
  "category_error rt v =
     (if cast_string rt v = [] then Some (ValidatorError ''Category is required'')
      else if cast_string rt v \<in> set categories then None
      else Some (EnumError ''category'' (cast_string rt v)))"

definition type_error :: "js_runtime \<Rightarrow> jsval \<Rightarrow> verror option" where
  "type_error rt v =
     (if cast_string rt v = [] then Some (ValidatorError ''Type is required'')
      else if cast_string rt v \<in> set types then None
      else Some (EnumError ''type'' (cast_string rt v)))"

text \<open>
  \<open>amount\<close>: NaN does not cast to a Number path; then \<open>min: 0.01\<close>, then the declared
  validator \<open>Number.isFinite(value) && value > 0\<close>. The first failing validator of a
  path is the one reported.
\<close>

fun isFinite :: "jsnum \<Rightarrow> bool" where
  "isFinite (Fin r) = True"
| "isFinite _ = False"

definition amount_error :: "jsnum \<Rightarrow> verror option" where
  "amount_error n =
     (if n = NaN then Some (CastError ''amount'')
      else if \<not> num_le (Fin (1 / 100)) n then Some (ValidatorError ''Amount must be greater than 0'')
      else if \<not> (isFinite n \<and> num_gt n (Fin 0))
      then Some (ValidatorError ''Amount must be a valid positive number'')
      else None)"

text \<open>\<open>date\<close>: an Invalid Date does not cast to a Date path.\<close>

definition date_error :: "int option \<Rightarrow> verror option" where
  "date_error d = (case d of None \<Rightarrow> Some (CastError ''date'') | Some t \<Rightarrow> None)"

fun opt_list :: "'a option \<Rightarrow> 'a list" where
  "opt_list None = []"
| "opt_list (Some x) = [x]"

definition validation_errors :: "js_runtime \<Rightarrow> candidate \<Rightarrow> verror list" where
  "validation_errors rt c =
     opt_list (date_error (c_date c)) @
     opt_list (description_error rt (c_description c)) @
     opt_list (category_error rt (c_category c)) @
     opt_list (type_error rt (c_type c)) @
     opt_list (amount_error (c_amount c))"

text \<open>
  Validation of a document as \<open>save()\<close> and \<open>insertMany\<close> run it: either the list
  of errors of a ValidationError, or the document as it is stored, with the given
  identifier and timestamps.
\<close>

definition validated :: "js_runtime \<Rightarrow> string \<Rightarrow> int \<Rightarrow> int \<Rightarrow> candidate \<Rightarrow> verror list + txn" where
  "validated rt i created updated c =
     (if validation_errors rt c \<noteq> [] then Inl (validation_errors rt c)
      else case c_date c of
        None \<Rightarrow> Inl (validation_errors rt c)
      | Some d \<Rightarrow>
          Inr \<lparr>tid = i, userId = c_userId c, date = d,
               description = cast_description rt (c_description c),
               category = cast_string rt (c_category c),
               type = cast_string rt (c_type c),
               amount = c_amount c,
               createdAt = created, updatedAt = updated\<rparr>)"

section \<open>Requests and responses\<close>

text \<open>
  The fields of \<open>req.body\<close> that a client can send for one transaction.
  \<open>b_userId\<close> is a \<open>userId\<close> the client may have put into the body.
\<close>

record body =
  b_userId :: jsval
  b_date :: jsval
  b_description :: jsval
  b_category :: jsval
  b_type :: jsval
  b_amount :: jsval

text \<open>\<open>req.query\<close>: every parameter is absent or a string.\<close>

record query =
  q_page :: "string option"
  q_limit :: "string option"
  q_type :: "string option"
  q_category :: "string option"
  q_startDate :: "string option"
  q_endDate :: "string option"
  q_month :: "string option"
  q_year :: "string option"

fun qv :: "string option \<Rightarrow> jsval" where
  "qv None = Undefined"
| "qv (Some s) = JStr s"

datatype message = Text string | CreatedCount nat | CreatedFailed nat nat

record pagination =
  currentPage :: jsnum
  totalPages :: jsnum
  totalTransactions :: nat
  limit :: jsnum

record statistics =
  totalIncome :: jsnum
  totalExpense :: jsnum
  incomeCount :: nat
  expenseCount :: nat
  netAmount :: jsnum

datatype payload =
    NoData
  | OneTransaction txn
  | Page "txn list" pagination
  | Created "txn list"
  | Partial nat nat "string list option"
  | Stats statistics

record response =
  status :: nat
  success :: bool
  message :: "message option"
  data :: payload
  errors :: "verror list option"

definition failure :: "nat \<Rightarrow> string \<Rightarrow> response" where
  "failure code m =
     \<lparr>status = code, success = False, message = Some (Text m), data = NoData, errors = None\<rparr>"

definition validation_failure :: "verror list \<Rightarrow> response" where
  "validation_failure es =
     \<lparr>status = 400, success = False, message = Some (Text ''Validation error''),
      data = NoData, errors = Some es\<rparr>"

definition ok :: "nat \<Rightarrow> message option \<Rightarrow> payload \<Rightarrow> response" where
  "ok code m p = \<lparr>status = code, success = True, message = m, data = p, errors = None\<rparr>"

section \<open>The collection\<close>

text \<open>
  The collection of transactions is the list of its documents. \<open>findOne\<close> returns
  the first document that matches; \<open>save\<close> on a found document writes it back in
  place; \<open>findOneAndDelete\<close> removes the first document that matches.
\<close>

definition owned_with_id :: "string \<Rightarrow> string \<Rightarrow> txn \<Rightarrow> bool" where
  "owned_with_id i uid d = (tid d = i \<and> userId d = uid)"

definition findOne :: "(txn \<Rightarrow> bool) \<Rightarrow> txn list \<Rightarrow> txn option" where
  "findOne P db = find P db"

fun replace_first :: "(txn \<Rightarrow> bool) \<Rightarrow> txn \<Rightarrow> txn list \<Rightarrow> txn list" where
  "replace_first P n [] = []"
| "replace_first P n (d # ds) = (if P d then n # ds else d # replace_first P n ds)"

fun delete_first :: "(txn \<Rightarrow> bool) \<Rightarrow> txn list \<Rightarrow> txn list" where
  "delete_first P [] = []"
| "delete_first P (d # ds) = (if P d then ds else d # delete_first P ds)"

text \<open>
  The filter object of a query. A bound of the date range is a Date object, which may
  be Invalid Date.
\<close>

record filter =
  f_userId :: string
  f_type :: "string option"
  f_category :: "string option"
  f_date :: "(int option \<times> int option) option"

definition in_range :: "int \<Rightarrow> int \<Rightarrow> txn \<Rightarrow> bool" where
  "in_range lo hi d = (lo \<le> date d \<and> date d \<le> hi)"

text \<open>
  \<open>find\<close> and \<open>countDocuments\<close> cast the filter against the schema first: an
  Invalid Date does not cast and the query is rejected.
\<close>

definition castable :: "filter \<Rightarrow> bool" where
  "castable f =
     (case f_date f of
        None \<Rightarrow> True
      | Some (lo, hi) \<Rightarrow> lo \<noteq> None \<and> hi \<noteq> None)"

definition matches :: "filter \<Rightarrow> txn \<Rightarrow> bool" where
  "matches f d =
     (userId d = f_userId f \<and>
      (case f_type f of None \<Rightarrow> True | Some t \<Rightarrow> type d = t) \<and>
      (case f_category f of None \<Rightarrow> True | Some c \<Rightarrow> category d = c) \<and>
      (case f_date f of
         None \<Rightarrow> True
       | Some (Some lo, Some hi) \<Rightarrow> in_range lo hi d
       | Some _ \<Rightarrow> False))"

text \<open>\<open>.sort({ date: -1, createdAt: -1 })\<close>.\<close>

definition sort_desc :: "txn list \<Rightarrow> txn list" where
  "sort_desc ds = sort_key (\<lambda>d. (- date d, - createdAt d)) ds"

text \<open>
  \<open>.skip(s).limit(l)\<close> on the sorted result. The driver rejects a skip or limit that
  is not a number and a negative skip; a limit of 0 means no limit and a negative limit
  is taken by its absolute value.
\<close>

fun skip_limit :: "jsnum \<Rightarrow> jsnum \<Rightarrow> txn list \<Rightarrow> txn list option" where
  "skip_limit (Fin s) (Fin l) ds =
     (if s < 0 then None
      else if l = 0 then Some (drop (nat (ToInteger s)) ds)
      else Some (take (nat \<bar>ToInteger l\<bar>) (drop (nat (ToInteger s)) ds)))"
| "skip_limit _ _ ds = None"

section \<open>The controller\<close>

subsection \<open>getTransactions\<close>

text \<open>The two date ranges that \<open>month\<close> and \<open>year\<close> select, as the source computes them.\<close>

definition month_range :: "js_runtime \<Rightarrow> jsval \<Rightarrow> jsval \<Rightarrow> int option \<times> int option" where
  "month_range rt month year =
     (Date_ymd rt (ToNumber rt year) (num_sub (ToNumber rt month) (Fin 1)) (Fin 1),
      Date_ymd rt (ToNumber rt year) (ToNumber rt month) (Fin 0))"

definition year_range :: "js_runtime \<Rightarrow> jsval \<Rightarrow> int option \<times> int option" where
  "year_range rt year =
     (Date_ymd rt (ToNumber rt year) (Fin 0) (Fin 1),
      Date_ymd rt (ToNumber rt year) (Fin 11) (Fin 31))"

definition date_filter :: "js_runtime \<Rightarrow> query \<Rightarrow> (int option \<times> int option) option" where
  "date_filter rt q =
     (if truthy (qv (q_startDate q)) \<and> truthy (qv (q_endDate q))
      then Some (new_Date rt (qv (q_startDate q)), new_Date rt (qv (q_endDate q)))
      else if truthy (qv (q_month q)) \<and> truthy (qv (q_year q))
      then Some (month_range rt (qv (q_month q)) (qv (q_year q)))
      else if truthy (qv (q_year q))
      then Some (year_range rt (qv (q_year q)))
      else None)"

definition build_filter :: "js_runtime \<Rightarrow> string \<Rightarrow> query \<Rightarrow> filter" where
  "build_filter rt uid q =
     \<lparr>f_userId = uid,
      f_type = (if truthy (qv (q_type q)) \<and> is_income_or_expense (qv (q_type q))
                then q_type q else None),
      f_category = (if truthy (qv (q_category q)) then q_category q else None),
      f_date = date_filter rt q\<rparr>"

text \<open>\<open>parseInt(page)\<close> and \<open>parseInt(limit)\<close> with the defaults 1 and 10 of the destructuring.\<close>

definition page_number :: "js_runtime \<Rightarrow> query \<Rightarrow> jsnum" where
  "page_number rt q = (case q_page q of None \<Rightarrow> Fin 1 | Some s \<Rightarrow> parseInt_str rt s)"

definition limit_number :: "js_runtime \<Rightarrow> query \<Rightarrow> jsnum" where
  "limit_number rt q = (case q_limit q of None \<Rightarrow> Fin 10 | Some s \<Rightarrow> parseInt_str rt s)"

definition getTransactions :: "js_runtime \<Rightarrow> string \<Rightarrow> query \<Rightarrow> txn list \<Rightarrow> response" where
  "getTransactions rt uid q db =
     (let f = build_filter rt uid q;
          skip = num_mul (num_sub (page_number rt q) (Fin 1)) (limit_number rt q)
      in if \<not> castable f then failure 500 ''Server error while fetching transactions''
         else case skip_limit skip (limit_number rt q) (sort_desc (filter (matches f) db)) of
           None \<Rightarrow> failure 500 ''Server error while fetching transactions''
         | Some transactions \<Rightarrow>
             (let total = length (filter (matches f) db)
              in ok 200 None
                   (Page transactions
                      \<lparr>currentPage = page_number rt q,
                       totalPages = Math_ceil (num_div (Fin (of_nat total)) (limit_number rt q)),
                       totalTransactions = total,
                       limit = limit_number rt q\<rparr>)))"

subsection \<open>createTransaction\<close>

definition request_date :: "js_runtime \<Rightarrow> jsval \<Rightarrow> int option" where
  "request_date rt v = (if truthy v then new_Date rt v else Some (Date_now rt))"

definition createTransaction :: "js_runtime \<Rightarrow> string \<Rightarrow> body \<Rightarrow> txn list \<Rightarrow> response \<times> txn list" where
  "createTransaction rt uid b db =
     (if \<not> truthy (b_description b) \<or> \<not> truthy (b_category b) \<or> \<not> truthy (b_type b)
         \<or> \<not> truthy (b_amount b)
      then (failure 400 ''Please provide all required fields: description, category, type, amount'', db)
      else if \<not> is_income_or_expense (b_type b)
      then (failure 400 ''Type must be either \"income\" or \"expense\"'', db)
      else if le_zero rt (b_amount b)
      then (failure 400 ''Amount must be greater than 0'', db)
      else case b_description b of
        JStr s \<Rightarrow>
          (case validated rt (new_ObjectId rt 0) (Date_now rt) (Date_now rt)
                  \<lparr>c_userId = uid, c_date = request_date rt (b_date b),
                   c_description = JStr (String_trim rt s), c_category = b_category b,
                   c_type = b_type b, c_amount = parseFloat rt (b_amount b)\<rparr> of
             Inl es \<Rightarrow> (validation_failure es, db)
           | Inr transaction \<Rightarrow>
               (ok 201 (Some (Text ''Transaction created successfully'')) (OneTransaction transaction),
                db @ [transaction]))
      | _ \<Rightarrow> (failure 500 ''Server error while creating transaction'', db))"

subsection \<open>updateTransaction\<close>

text \<open>
  The found document as Mongoose holds it in memory, and the five conditional
  assignments of the source in their order. \<open>description.trim()\<close> throws a TypeError
  when the description is truthy and not a string: nothing is saved then.
\<close>

definition loaded :: "txn \<Rightarrow> candidate" where
  "loaded d =
     \<lparr>c_userId = userId d, c_date = Some (date d), c_description = JStr (description d),
      c_category = JStr (category d), c_type = JStr (type d), c_amount = amount d\<rparr>"

definition assign_date :: "js_runtime \<Rightarrow> jsval \<Rightarrow> candidate \<Rightarrow> candidate" where
  "assign_date rt v c = (if truthy v then c\<lparr>c_date := new_Date rt v\<rparr> else c)"

definition assign_description :: "js_runtime \<Rightarrow> jsval \<Rightarrow> candidate \<Rightarrow> candidate option" where
  "assign_description rt v c =
     (if truthy v
      then (case v of
              JStr s \<Rightarrow> Some (c\<lparr>c_description := JStr (String_trim rt s)\<rparr>)
            | _ \<Rightarrow> None)
      else Some c)"

definition assign_category :: "jsval \<Rightarrow> candidate \<Rightarrow> candidate" where
  "assign_category v c = (if truthy v then c\<lparr>c_category := v\<rparr> else c)"

definition assign_type :: "jsval \<Rightarrow> candidate \<Rightarrow> candidate" where
  "assign_type v c = (if truthy v \<and> is_income_or_expense v then c\<lparr>c_type := v\<rparr> else c)"

definition assign_amount :: "js_runtime \<Rightarrow> jsval \<Rightarrow> candidate \<Rightarrow> candidate" where
  "assign_amount rt v c =
     (if truthy v \<and> gt_zero rt v then c\<lparr>c_amount := parseFloat rt v\<rparr> else c)"

text \<open>
  \<open>save()\<close> of a found document validates it and, when a field has changed, stamps
  \<open>updatedAt\<close>.
\<close>

definition save :: "js_runtime \<Rightarrow> txn \<Rightarrow> candidate \<Rightarrow> verror list + txn" where
  "save rt old c =
     (case validated rt (tid old) (createdAt old) (updatedAt old) c of
        Inl es \<Rightarrow> Inl es
      | Inr n \<Rightarrow> Inr (if n = old then n else n\<lparr>updatedAt := Date_now rt\<rparr>))"

definition updateTransaction ::
  "js_runtime \<Rightarrow> string \<Rightarrow> string \<Rightarrow> body \<Rightarrow> txn list \<Rightarrow> response \<times> txn list" where
  "updateTransaction rt uid i b db =
     (if \<not> isValidObjectId rt i then (failure 400 ''Invalid transaction ID'', db)
      else case findOne (owned_with_id i uid) db of
        None \<Rightarrow> (failure 404 ''Transaction not found'', db)
      | Some old \<Rightarrow>
          (case assign_description rt (b_description b) (assign_date rt (b_date b) (loaded old)) of
             None \<Rightarrow> (failure 500 ''Server error while updating transaction'', db)
           | Some c \<Rightarrow>
               (case save rt old
                       (assign_amount rt (b_amount b)
                          (assign_type (b_type b) (assign_category (b_category b) c))) of
                  Inl es \<Rightarrow> (validation_failure es, db)
                | Inr transaction \<Rightarrow>
                    (ok 200 (Some (Text ''Transaction updated successfully''))
                       (OneTransaction transaction),
                     replace_first (owned_with_id i uid) transaction db))))"

subsection \<open>deleteTransaction\<close>

definition deleteTransaction ::
  "js_runtime \<Rightarrow> string \<Rightarrow> string \<Rightarrow> txn list \<Rightarrow> response \<times> txn list" where
  "deleteTransaction rt uid i db =
     (if \<not> isValidObjectId rt i then (failure 400 ''Invalid transaction ID'', db)
      else case findOne (owned_with_id i uid) db of
        None \<Rightarrow> (failure 404 ''Transaction not found'', db)
      | Some transaction \<Rightarrow>
          (ok 200 (Some (Text ''Transaction deleted successfully'')) NoData,
           delete_first (owned_with_id i uid) db))"

subsection \<open>bulkCreateTransactions\<close>

text \<open>
  What \<open>Transaction.insertMany\<close> can do: resolve to the created documents, or throw
  an error, of which the handler reads \<open>name\<close>, \<open>result.insertedCount\<close> and
  \<open>writeErrors\<close>.
\<close>

record thrown =
  err_name :: string
  insertedCount :: nat
  writeErrors :: "string list option"

datatype insert_outcome = Resolved "txn list" | Thrown thrown

text \<open>
  The object built for every element of the array: the spread copies the element and
  the three properties written after it override \<open>userId\<close>, \<open>date\<close> and \<open>amount\<close>.
\<close>

definition stamp :: "js_runtime \<Rightarrow> string \<Rightarrow> body \<Rightarrow> candidate" where
  "stamp rt uid transaction =
     \<lparr>c_userId = uid, c_date = request_date rt (b_date transaction),
      c_description = b_description transaction, c_category = b_category transaction,
      c_type = b_type transaction, c_amount = parseFloat rt (b_amount transaction)\<rparr>"

definition failureCount :: "thrown \<Rightarrow> nat" where
  "failureCount e = (case writeErrors e of None \<Rightarrow> 0 | Some ws \<Rightarrow> length ws)"

text \<open>
  The handler, for any behaviour of \<open>insertMany\<close>: the second argument is that call,
  from the array of stamped objects and the collection to an outcome and the
  collection afterwards. \<open>transactions\<close> is None when the body has no array there.
\<close>

definition bulkCreateTransactions ::
  "js_runtime \<Rightarrow> (candidate list \<Rightarrow> txn list \<Rightarrow> insert_outcome \<times> txn list) \<Rightarrow>
   string \<Rightarrow> body list option \<Rightarrow> txn list \<Rightarrow> response \<times> txn list" where
  "bulkCreateTransactions rt insertMany uid transactions db =
     (case transactions of
        None \<Rightarrow> (failure 400 ''Please provide an array of transactions'', db)
      | Some [] \<Rightarrow> (failure 400 ''Please provide an array of transactions'', db)
      | Some rows \<Rightarrow>
          (case insertMany (map (stamp rt uid) rows) db of
             (Resolved createdTransactions, db') \<Rightarrow>
               (ok 201 (Some (CreatedCount (length createdTransactions)))
                  (Created createdTransactions), db')
           | (Thrown e, db') \<Rightarrow>
               (if err_name e = ''BulkWriteError''
                then (ok 207 (Some (CreatedFailed (insertedCount e) (failureCount e)))
                        (Partial (insertedCount e) (failureCount e) (writeErrors e)), db')
                else (failure 500 ''Server error while creating transactions'', db'))))"

text \<open>
  \<open>Transaction.insertMany(docs, { ordered: false })\<close> of Mongoose on this schema:
  every document is validated; with \<open>ordered: false\<close> a document that fails
  validation is left out, the others are inserted, and the call resolves to the
  documents that were inserted. It does not throw for a validation failure.
\<close>

fun insert_valid :: "js_runtime \<Rightarrow> nat \<Rightarrow> candidate list \<Rightarrow> txn list" where
  "insert_valid rt k [] = []"
| "insert_valid rt k (c # cs) =
     (case validated rt (new_ObjectId rt k) (Date_now rt) (Date_now rt) c of
        Inl es \<Rightarrow> insert_valid rt (Suc k) cs
      | Inr d \<Rightarrow> d # insert_valid rt (Suc k) cs)"

definition Transaction_insertMany ::
  "js_runtime \<Rightarrow> candidate list \<Rightarrow> txn list \<Rightarrow> insert_outcome \<times> txn list" where
  "Transaction_insertMany rt cs db = (Resolved (insert_valid rt 0 cs), db @ insert_valid rt 0 cs)"

subsection \<open>getStatistics\<close>

definition stats_date_filter :: "js_runtime \<Rightarrow> query \<Rightarrow> (int option \<times> int option) option" where
  "stats_date_filter rt q =
     (if truthy (qv (q_month q)) \<and> truthy (qv (q_year q))
      then Some (month_range rt (qv (q_month q)) (qv (q_year q)))
      else if truthy (qv (q_year q))
      then Some (year_range rt (qv (q_year q)))
      else None)"

text \<open>
  An aggregation pipeline is not cast by Mongoose; the driver writes an Invalid Date
  into the command as the time value 0.
\<close>

definition bson_date :: "int option \<Rightarrow> int" where
  "bson_date d = (case d of None \<Rightarrow> 0 | Some t \<Rightarrow> t)"

definition stats_match :: "string \<Rightarrow> (int option \<times> int option) option \<Rightarrow> txn \<Rightarrow> bool" where
  "stats_match uid r d =
     (userId d = uid \<and>
      (case r of None \<Rightarrow> True | Some (lo, hi) \<Rightarrow> in_range (bson_date lo) (bson_date hi) d))"

text \<open>
  \<open>$sum\<close> of the amounts of a group and the subtraction for \<open>netAmount\<close>:
  double arithmetic, the exact sum or difference of two finite operands rounded by
  \<open>to_double\<close>. The sum is taken over the documents in the order of the
  collection; MongoDB fixes neither the order nor the way it adds, and the sums
  evaluated in the properties are those of an empty group and of a group of one
  document, where every order and every way of adding agree.
\<close>

fun amount_add :: "js_runtime \<Rightarrow> jsnum \<Rightarrow> jsnum \<Rightarrow> jsnum" where
  "amount_add rt NaN _ = NaN"
| "amount_add rt _ NaN = NaN"
| "amount_add rt (Fin a) (Fin b) = to_double rt (a + b)"
| "amount_add rt PInf NInf = NaN"
| "amount_add rt NInf PInf = NaN"
| "amount_add rt PInf _ = PInf"
| "amount_add rt NInf _ = NInf"
| "amount_add rt (Fin a) x = x"

fun amount_sub :: "js_runtime \<Rightarrow> jsnum \<Rightarrow> jsnum \<Rightarrow> jsnum" where
  "amount_sub rt NaN _ = NaN"
| "amount_sub rt _ NaN = NaN"
| "amount_sub rt (Fin a) (Fin b) = to_double rt (a - b)"
| "amount_sub rt PInf PInf = NaN"
| "amount_sub rt NInf NInf = NaN"
| "amount_sub rt PInf _ = PInf"
| "amount_sub rt NInf _ = NInf"
| "amount_sub rt (Fin a) PInf = NInf"
| "amount_sub rt (Fin a) NInf = PInf"

definition sum_amounts :: "js_runtime \<Rightarrow> txn list \<Rightarrow> jsnum" where
  "sum_amounts rt ds = foldl (amount_add rt) (Fin 0) (map amount ds)"

text \<open>The \<open>$group\<close> stage: one group per type that occurs, with its total and count.\<close>

definition group_by_type :: "js_runtime \<Rightarrow> txn list \<Rightarrow> (string \<times> jsnum \<times> nat) list" where
  "group_by_type rt ds =
     map (\<lambda>t. (t, sum_amounts rt (filter (\<lambda>d. type d = t) ds),
                  length (filter (\<lambda>d. type d = t) ds)))
       (remdups (map type ds))"

text \<open>The body of \<open>stats.forEach\<close>.\<close>

fun collect :: "string \<times> jsnum \<times> nat \<Rightarrow> statistics \<Rightarrow> statistics" where
  "collect (g, amt, n) result =
     (if g = ''income'' then result\<lparr>totalIncome := amt, incomeCount := n\<rparr>
      else if g = ''expense'' then result\<lparr>totalExpense := amt, expenseCount := n\<rparr>
      else result)"

definition zero_statistics :: statistics where
  "zero_statistics =
     \<lparr>totalIncome = Fin 0, totalExpense = Fin 0, incomeCount = 0, expenseCount = 0,
      netAmount = Fin 0\<rparr>"

definition compute_statistics :: "js_runtime \<Rightarrow> string \<Rightarrow> query \<Rightarrow> txn list \<Rightarrow> statistics" where
  "compute_statistics rt uid q db =
     (let stats = group_by_type rt (filter (stats_match uid (stats_date_filter rt q)) db);
          result = fold collect stats zero_statistics
      in result\<lparr>netAmount := amount_sub rt (totalIncome result) (totalExpense result)\<rparr>)"

definition getStatistics :: "js_runtime \<Rightarrow> string \<Rightarrow> query \<Rightarrow> txn list \<Rightarrow> response" where
  "getStatistics rt uid q db = ok 200 None (Stats (compute_statistics rt uid q db))"

section \<open>Notions used in the properties\<close>

text \<open>
  Following the words of the claims, not the handlers: the time value \<open>t\<close> falls,
  in UTC, on a day of month \<open>m\<close> (1 to 12) of year \<open>y\<close>, at any time of that
  day.
\<close>

definition in_calendar_month :: "int \<Rightarrow> int \<Rightarrow> int \<Rightarrow> bool" where
  "in_calendar_month y m t =
     (MakeDay y (m - 1) 1 * msPerDay \<le> t \<and> t < MakeDay y m 1 * msPerDay)"

text \<open>
  A stored document satisfies the schema when validating it gives the document back.
\<close>

definition schema_valid :: "js_runtime \<Rightarrow> txn \<Rightarrow> bool" where
  "schema_valid rt d = (validated rt (tid d) (createdAt d) (updatedAt d) (loaded d) = Inr d)"

text \<open>The document that \<open>save\<close> writes for the validated document \<open>n\<close>.\<close>

definition touch :: "js_runtime \<Rightarrow> txn \<Rightarrow> txn \<Rightarrow> txn" where
  "touch rt old n = (if n = old then n else n\<lparr>updatedAt := Date_now rt\<rparr>)"

text \<open>The documents of a user, and the documents of everybody else.\<close>

definition own :: "string \<Rightarrow> txn list \<Rightarrow> txn list" where
  "own uid db = filter (\<lambda>d. userId d = uid) db"

definition others :: "string \<Rightarrow> txn list \<Rightarrow> txn list" where
  "others uid db = filter (\<lambda>d. userId d \<noteq> uid) db"

section \<open>An environment for the examples\<close>

text \<open>
  The theorems below hold for every environment. The examples are evaluated in this
  one: it agrees with JavaScript on the values the examples use (strings of decimal
  digits as numbers, dates written \<open>YYYY-MM-DD\<close>, strings of code units below
  256, sums and differences that are doubles without rounding), the server's time
  zone is UTC, and a route parameter is a valid identifier when it is 24 hexadecimal
  digits.
\<close>

text \<open>
  \<open>trim\<close> for strings of code units below 256: there the white space and line
  terminators of ECMAScript are TAB, LF, VT, FF, CR, SPACE and NO-BREAK SPACE.
\<close>

definition latin1_space :: "char \<Rightarrow> bool" where
  "latin1_space c =
     (c \<in> set [CHR 0x09, CHR 0x0A, CHR 0x0B, CHR 0x0C, CHR 0x0D, CHR 0x20, CHR 0xA0])"

definition latin1_trim :: "string \<Rightarrow> string" where
  "latin1_trim s = rev (dropWhile latin1_space (rev (dropWhile latin1_space s)))"

definition digit_value :: "char \<Rightarrow> nat option" where
  "digit_value c = map_of (zip ''0123456789'' [0, 1, 2, 3, 4, 5, 6, 7, 8, 9]) c"

fun decimal :: "nat \<Rightarrow> string \<Rightarrow> nat option" where
  "decimal acc [] = Some acc"
| "decimal acc (c # cs) =
     (case digit_value c of None \<Rightarrow> None | Some v \<Rightarrow> decimal (10 * acc + v) cs)"

definition digits_number :: "string \<Rightarrow> jsnum" where
  "digits_number s =
     (if s = [] then NaN
      else case decimal 0 s of None \<Rightarrow> NaN | Some n \<Rightarrow> Fin (of_nat n))"

definition iso_date :: "string \<Rightarrow> int option" where
  "iso_date s =
     (if length s = 10 \<and> s ! 4 = CHR ''-'' \<and> s ! 7 = CHR ''-''
      then (case (decimal 0 (take 4 s), decimal 0 (take 2 (drop 5 s)), decimal 0 (drop 8 s)) of
              (Some y, Some m, Some d) \<Rightarrow>
                (if 1 \<le> m \<and> m \<le> 12 \<and> 1 \<le> d
                    \<and> MakeDay (int y) (int m - 1) (int d) < MakeDay (int y) (int m) 1
                 then Some (MakeDay (int y) (int m - 1) (int d) * msPerDay) else None)
            | _ \<Rightarrow> None)
      else None)"

definition hex_digit :: "char \<Rightarrow> bool" where
  "hex_digit c = (c \<in> set ''0123456789abcdefABCDEF'')"

definition example_id :: "nat \<Rightarrow> string" where
  "example_id k = ''65a1b2c3d4e5f6a7b8c9d0'' @ [''0123456789'' ! (k div 10 mod 10), ''0123456789'' ! (k mod 10)]"

definition example_rt :: js_runtime where
  "example_rt =
     \<lparr>StringToNumber = (\<lambda>s. if s = [] then Fin 0 else digits_number s),
      parseFloat_str = digits_number,
      parseInt_str = digits_number,
      NumberToString = (\<lambda>n. []),
      Date_parse = iso_date,
      LocalTZA = (\<lambda>t. 0),
      Date_now = 1718000000000,
      isValidObjectId = (\<lambda>s. length s = 24 \<and> list_all hex_digit s),
      new_ObjectId = example_id,
      String_trim = latin1_trim,
      to_double = Fin\<rparr>"

definition example_body :: body where
  "example_body =
     \<lparr>b_userId = Undefined, b_date = JStr ''2024-01-15'',
      b_description = JStr ''Grocery Shopping'', b_category = JStr ''Food & Dining'',
      b_type = JStr ''expense'', b_amount = JNum (Fin (171 / 2))\<rparr>"

definition example_txn :: txn where
  "example_txn =
     \<lparr>tid = ''65a1b2c3d4e5f6a7b8c9d0e1'', userId = ''alice'', date = 1706702400000,
      description = ''Lunch'', category = ''Food & Dining'', type = ''expense'',
      amount = Fin 12, createdAt = 1706702400000, updatedAt = 1706702400000\<rparr>"

definition example_query :: query where
  "example_query =
     \<lparr>q_page = None, q_limit = None, q_type = None, q_category = None,
      q_startDate = None, q_endDate = None, q_month = None, q_year = None\<rparr>"

definition range_query :: query where
  "range_query =
     example_query\<lparr>q_startDate := Some ''2024-01-10'', q_endDate := Some ''2024-01-20'',
       q_month := Some ''2'', q_year := Some ''2024''\<rparr>"

definition january :: query where
  "january = example_query\<lparr>q_month := Some ''1'', q_year := Some ''2024''\<rparr>"

definition year_2024 :: query where
  "year_2024 = example_query\<lparr>q_year := Some ''2024''\<rparr>"

definition salary_txn :: txn where
  "salary_txn =
     example_txn\<lparr>tid := ''65a1b2c3d4e5f6a7b8c9d0e2'', date := 1705276800000,
       description := ''Salary'', category := ''Income'', type := ''income'', amount := Fin 5000\<rparr>"

definition bob_txn :: txn where
  "bob_txn = example_txn\<lparr>tid := ''65a1b2c3d4e5f6a7b8c9d0e3'', userId := ''bob'', date := 1706745600000\<rparr>"

definition train_txn :: txn where
  "train_txn =
     example_txn\<lparr>tid := ''65a1b2c3d4e5f6a7b8c9d0e4'', date := 1709251200000,
       description := ''Train'', category := ''Transportation'', amount := Fin (7 / 2)\<rparr>"

definition example_db :: "txn list" where
  "example_db = [example_txn, salary_txn, bob_txn, train_txn]"

definition second_page :: query where
  "second_page = example_query\<lparr>q_page := Some ''2'', q_limit := Some ''2''\<rparr>"

definition bad_row :: body where
  "bad_row = example_body\<lparr>b_description := JStr ''Refund'', b_amount := JNum (Fin (- 5))\<rparr>"

definition grocery_txn :: txn where
  "grocery_txn =
     \<lparr>tid = new_ObjectId example_rt 0, userId = ''alice'', date = 1705276800000,
      description = ''Grocery Shopping'', category = ''Food & Dining'', type = ''expense'',
      amount = Fin (171 / 2), createdAt = Date_now example_rt, updatedAt = Date_now example_rt\<rparr>"

definition skip_body :: body where
  "skip_body =
     \<lparr>b_userId = Undefined, b_date = JStr [], b_description = JStr [],
      b_category = JStr ''Transportation'', b_type = JStr ''transfer'', b_amount = JNum (Fin 0)\<rparr>"

definition invalid_body :: body where
  "invalid_body =
     \<lparr>b_userId = Undefined, b_date = Undefined, b_description = Undefined,
      b_category = Undefined, b_type = JStr ''transfer'', b_amount = JNum (Fin (- 5))\<rparr>"

definition february :: query where
  "february = example_query\<lparr>q_month := Some ''2'', q_year := Some ''2024''\<rparr>"

definition february_txn :: txn where
  "february_txn =
     example_txn\<lparr>tid := ''65a1b2c3d4e5f6a7b8c9d0e5'', date := 1707523200000,
       description := ''Books'', category := ''Education'', amount := Fin 40\<rparr>"

definition leap_day_txn :: txn where
  "leap_day_txn =
     example_txn\<lparr>tid := ''65a1b2c3d4e5f6a7b8c9d0e6'', date := 1709208000000,
       description := ''Bonus'', category := ''Income'', type := ''income'', amount := Fin 1000\<rparr>"

definition scope_db :: "txn list" where
  "scope_db = [salary_txn, february_txn, leap_day_txn]"

definition zero_limit :: query where
  "zero_limit = example_query\<lparr>q_limit := Some ''0''\<rparr>"

definition january_bonus :: txn where
  "january_bonus =
     example_txn\<lparr>tid := ''65a1b2c3d4e5f6a7b8c9d0e7'', date := 1706702400000,
       description := ''Bonus'', category := ''Income'', type := ''income'', amount := Fin 1000\<rparr>"

section \<open>Properties\<close>

subsection \<open>Lookup by identifier and owner\<close>

lemma findOne_None_iff: "findOne P db = None \<longleftrightarrow> (\<forall>d \<in> set db. \<not> P d)"
  by (auto simp: findOne_def find_None_iff)

lemma findOne_Some_mem: "findOne P db = Some d \<Longrightarrow> d \<in> set db \<and> P d"
  unfolding findOne_def by (induction db) (auto split: if_splits)

text \<open>
  C2. Update and delete resolve their target by identifier and owner. An identifier
  that is not a valid ObjectId is answered with 400 "Invalid transaction ID" whatever
  the collection holds, and the collection is not touched. A valid identifier for
  which the collection has no document with that identifier and the caller's userId
  is answered with 404 "Transaction not found" and the collection is not touched:
  this covers a document that does not exist and a document of another user alike, so
  the two responses are the same. A response with \<open>success: true\<close> is only given
  when the caller owns a document with that identifier.
\<close>

theorem id_resolution:
  "(\<not> isValidObjectId rt i \<longrightarrow>
      updateTransaction rt uid i b db = (failure 400 ''Invalid transaction ID'', db) \<and>
      deleteTransaction rt uid i db = (failure 400 ''Invalid transaction ID'', db)) \<and>
   (isValidObjectId rt i \<and> (\<forall>d \<in> set db. tid d = i \<longrightarrow> userId d \<noteq> uid) \<longrightarrow>
      updateTransaction rt uid i b db = (failure 404 ''Transaction not found'', db) \<and>
      deleteTransaction rt uid i db = (failure 404 ''Transaction not found'', db)) \<and>
   (success (fst (updateTransaction rt uid i b db))
      \<or> success (fst (deleteTransaction rt uid i db)) \<longrightarrow>
      (\<exists>d \<in> set db. tid d = i \<and> userId d = uid))"
proof (intro conjI impI)
  assume "\<not> isValidObjectId rt i"
  then show "updateTransaction rt uid i b db = (failure 400 ''Invalid transaction ID'', db)"
    by (simp add: updateTransaction_def)
next
  assume "\<not> isValidObjectId rt i"
  then show "deleteTransaction rt uid i db = (failure 400 ''Invalid transaction ID'', db)"
    by (simp add: deleteTransaction_def)
next
  assume a: "isValidObjectId rt i \<and> (\<forall>d \<in> set db. tid d = i \<longrightarrow> userId d \<noteq> uid)"
  then have none: "findOne (owned_with_id i uid) db = None"
    by (auto simp: findOne_None_iff owned_with_id_def)
  with a show "updateTransaction rt uid i b db = (failure 404 ''Transaction not found'', db)"
    by (simp add: updateTransaction_def)
  from a none show "deleteTransaction rt uid i db = (failure 404 ''Transaction not found'', db)"
    by (simp add: deleteTransaction_def)
next
  assume s: "success (fst (updateTransaction rt uid i b db))
               \<or> success (fst (deleteTransaction rt uid i db))"
  show "\<exists>d \<in> set db. tid d = i \<and> userId d = uid"
  proof (cases "findOne (owned_with_id i uid) db")
    case None
    with s show ?thesis
      by (auto simp: updateTransaction_def deleteTransaction_def failure_def split: if_splits)
  next
    case (Some d)
    then show ?thesis
      using findOne_Some_mem [of "owned_with_id i uid" db d] by (auto simp: owned_with_id_def)
  qed
qed

theorem id_resolution_witness:
  "\<not> isValidObjectId example_rt ''42'' \<and>
   updateTransaction example_rt ''bob'' ''42'' example_body [example_txn]
     = (failure 400 ''Invalid transaction ID'', [example_txn]) \<and>
   deleteTransaction example_rt ''bob'' ''42'' [example_txn]
     = (failure 400 ''Invalid transaction ID'', [example_txn]) \<and>
   isValidObjectId example_rt (tid example_txn) \<and>
   userId example_txn = ''alice'' \<and>
   updateTransaction example_rt ''bob'' (tid example_txn) example_body [example_txn]
     = (failure 404 ''Transaction not found'', [example_txn]) \<and>
   deleteTransaction example_rt ''bob'' (tid example_txn) [example_txn]
     = (failure 404 ''Transaction not found'', [example_txn]) \<and>
   success (fst (deleteTransaction example_rt ''alice'' (tid example_txn) [example_txn])) \<and>
   (\<exists>d \<in> set [example_txn]. tid d = tid example_txn \<and> userId d = ''alice'')"
proof -
  have inv: "\<not> isValidObjectId example_rt ''42''"
    by (simp add: example_rt_def)
  have val: "isValidObjectId example_rt (tid example_txn)"
    by (simp add: example_rt_def example_txn_def hex_digit_def)
  have other: "\<forall>d \<in> set [example_txn]. tid d = tid example_txn \<longrightarrow> userId d \<noteq> ''bob''"
    by (simp add: example_txn_def)
  have own: "success (fst (deleteTransaction example_rt ''alice'' (tid example_txn) [example_txn]))"
    using val by (simp add: deleteTransaction_def findOne_def owned_with_id_def example_txn_def ok_def)
  have alice: "userId example_txn = ''alice''"
    by (simp add: example_txn_def)
  show ?thesis
    using inv val other own alice
      id_resolution [of example_rt "''42''" "''bob''" example_body "[example_txn]"]
      id_resolution [of example_rt "tid example_txn" "''bob''" example_body "[example_txn]"]
      id_resolution [of example_rt "tid example_txn" "''alice''" example_body "[example_txn]"]
    by blast
qed

subsection \<open>Schema validation\<close>

lemma validated_Inr:
  "validation_errors rt c = [] \<Longrightarrow> c_date c = Some d \<Longrightarrow>
   validated rt i cr up c =
     Inr \<lparr>tid = i, userId = c_userId c, date = d,
          description = cast_description rt (c_description c),
          category = cast_string rt (c_category c), type = cast_string rt (c_type c),
          amount = c_amount c, createdAt = cr, updatedAt = up\<rparr>"
  by (simp add: validated_def)

lemma validated_Inl:
  "validation_errors rt c \<noteq> [] \<Longrightarrow> validated rt i cr up c = Inl (validation_errors rt c)"
  by (simp add: validated_def)

lemma validation_errors_Nil:
  "validation_errors rt c = [] \<longleftrightarrow>
     date_error (c_date c) = None \<and> description_error rt (c_description c) = None \<and>
     category_error rt (c_category c) = None \<and> type_error rt (c_type c) = None \<and>
     amount_error (c_amount c) = None"
  by (auto simp: validation_errors_def elim: opt_list.elims)

lemma amount_error_mem:
  "amount_error (c_amount c) = Some e \<Longrightarrow> e \<in> set (validation_errors rt c)"
  by (simp add: validation_errors_def)

lemma amount_error_None: "amount_error n = None \<longleftrightarrow> (\<exists>r. n = Fin r \<and> 1 / 100 \<le> r)"
  by (cases n) (auto simp: amount_error_def)

lemma description_error_None:
  "description_error rt (JStr x) = None \<longleftrightarrow>
     String_trim rt x \<noteq> [] \<and> length (String_trim rt x) \<le> 200"
  by (auto simp: description_error_def cast_description_def)

lemma category_error_None:
  "category_error rt (JStr c) = None \<longleftrightarrow> c \<in> set categories"
  by (auto simp: category_error_def categories_def)

lemma type_error_income_or_expense: "is_income_or_expense v \<Longrightarrow> type_error rt v = None"
  by (auto simp: is_income_or_expense_def type_error_def types_def)

lemma date_error_None: "date_error d = None \<longleftrightarrow> (\<exists>t. d = Some t)"
  by (cases d) (auto simp: date_error_def)


subsection \<open>The example environment\<close>

lemma dropWhile_self: "xs = [] \<or> \<not> P (hd xs) \<Longrightarrow> dropWhile P xs = xs"
  by (cases xs) auto

lemma dropWhile_hd: "dropWhile P xs = [] \<or> \<not> P (hd (dropWhile P xs))"
  by (induction xs) auto

lemma dropWhile_last: "dropWhile P xs \<noteq> [] \<Longrightarrow> last (dropWhile P xs) = last xs"
  by (induction xs) (auto split: if_splits)

lemma latin1_trim_idem: "latin1_trim (latin1_trim s) = latin1_trim s"
proof -
  define u where "u = dropWhile latin1_space s"
  define v where "v = dropWhile latin1_space (rev u)"
  have t: "latin1_trim s = rev v" by (simp add: latin1_trim_def u_def v_def)
  show ?thesis
  proof (cases "v = []")
    case True
    then have e: "latin1_trim s = []" by (simp add: t)
    have n: "latin1_trim [] = []" by (simp add: latin1_trim_def)
    show ?thesis by (simp only: e n)
  next
    case False
    then have ru: "rev u \<noteq> []" by (auto simp: v_def)
    have "last v = last (rev u)" using False dropWhile_last [of latin1_space "rev u"] by (simp add: v_def)
    also have "\<dots> = hd u" using ru by (simp add: last_rev)
    finally have lv: "last v = hd u" .
    have "\<not> latin1_space (hd u)" using dropWhile_hd [of latin1_space s] ru by (auto simp: u_def)
    then have "\<not> latin1_space (hd (rev v))" using False lv by (simp add: hd_rev)
    then have a: "dropWhile latin1_space (rev v) = rev v" by (rule_tac dropWhile_self) simp
    have "\<not> latin1_space (hd v)" using dropWhile_hd [of latin1_space "rev u"] False by (auto simp: v_def)
    then have b: "dropWhile latin1_space v = v" by (rule_tac dropWhile_self) simp
    have "latin1_trim (rev v) = rev v" by (simp add: latin1_trim_def a b)
    then show ?thesis by (simp only: t)
  qed
qed


lemma example_trim_idem:
  "String_trim example_rt (String_trim example_rt s) = String_trim example_rt s"
  by (simp add: example_rt_def latin1_trim_idem)

lemma example_body_fields:
  "truthy (b_description example_body)"
  "truthy (b_category example_body)"
  "is_income_or_expense (b_type example_body)"
  "b_description example_body = JStr ''Grocery Shopping''"
  "b_category example_body = JStr ''Food & Dining''"
  by (simp_all add: example_body_def is_income_or_expense_def)

lemma trim_example: "String_trim example_rt ''Grocery Shopping'' = ''Grocery Shopping''"
  by (simp add: example_rt_def latin1_trim_def latin1_space_def)

lemma request_date_example:
  "request_date example_rt (b_date example_body) = Some 1705276800000"
  by (simp add: request_date_def example_body_def example_rt_def iso_date_def digit_value_def
      MakeDay_def DayFromYear_def InLeapYear_def DaysBeforeMonth_def msPerDay_def)

subsection \<open>The amount of a create request\<close>

text \<open>
  What the handler and the schema do with the amount of a create request whose
  description and category are truthy and whose type is income or expense: the
  number 0 is answered by the required-fields check; a negative amount by the amount
  check; +Infinity and a positive amount below 0.01 by the schema's amount rule (when
  the description is a string); an amount of 0.01 or more passes both.
\<close>

lemma create_amount_checks:
  assumes "truthy (b_description b)" and "truthy (b_category b)"
    and "is_income_or_expense (b_type b)"
  shows
    "(b_amount b = JNum (Fin 0) \<longrightarrow>
        createTransaction rt uid b db =
          (failure 400 ''Please provide all required fields: description, category, type, amount'', db)) \<and>
     ((b_amount b = JNum (Fin r) \<and> r < 0) \<or> b_amount b = JNum NInf \<longrightarrow>
        createTransaction rt uid b db = (failure 400 ''Amount must be greater than 0'', db)) \<and>
     (b_amount b = JNum PInf \<and> b_description b = JStr s \<longrightarrow>
        (\<exists>es. createTransaction rt uid b db = (validation_failure es, db) \<and>
              ValidatorError ''Amount must be a valid positive number'' \<in> set es)) \<and>
     (b_amount b = JNum (Fin r) \<and> 0 < r \<and> r < 1 / 100 \<and> b_description b = JStr s \<longrightarrow>
        (\<exists>es. createTransaction rt uid b db = (validation_failure es, db) \<and>
              ValidatorError ''Amount must be greater than 0'' \<in> set es)) \<and>
     (b_amount b = JNum (Fin r) \<and> 1 / 100 \<le> r \<longrightarrow>
        \<not> le_zero rt (b_amount b) \<and> amount_error (parseFloat rt (b_amount b)) = None)"
proof (intro conjI impI)
  assume "b_amount b = JNum (Fin 0)"
  then show "createTransaction rt uid b db =
      (failure 400 ''Please provide all required fields: description, category, type, amount'', db)"
    by (simp add: createTransaction_def)
next
  assume "(b_amount b = JNum (Fin r) \<and> r < 0) \<or> b_amount b = JNum NInf"
  then have "truthy (b_amount b) \<and> le_zero rt (b_amount b)"
    by (auto simp: le_zero_def)
  with assms show "createTransaction rt uid b db = (failure 400 ''Amount must be greater than 0'', db)"
    by (auto simp: createTransaction_def is_income_or_expense_def)
next
  assume a: "b_amount b = JNum PInf \<and> b_description b = JStr s"
  let ?c = "\<lparr>c_userId = uid, c_date = request_date rt (b_date b),
             c_description = JStr (String_trim rt s), c_category = b_category b,
             c_type = b_type b, c_amount = parseFloat rt (b_amount b)\<rparr>"
  have e: "amount_error (c_amount ?c) = Some (ValidatorError ''Amount must be a valid positive number'')"
    using a by (simp add: amount_error_def)
  then have m: "ValidatorError ''Amount must be a valid positive number'' \<in> set (validation_errors rt ?c)"
    by (rule amount_error_mem)
  then have "validation_errors rt ?c \<noteq> []" by auto
  then have v: "validated rt (new_ObjectId rt 0) (Date_now rt) (Date_now rt) ?c = Inl (validation_errors rt ?c)"
    by (rule validated_Inl)
  have "createTransaction rt uid b db = (validation_failure (validation_errors rt ?c), db)"
    using assms a v by (auto simp: createTransaction_def le_zero_def is_income_or_expense_def)
  with m show "\<exists>es. createTransaction rt uid b db = (validation_failure es, db) \<and>
      ValidatorError ''Amount must be a valid positive number'' \<in> set es"
    by blast
next
  assume r: "b_amount b = JNum (Fin r) \<and> 0 < r \<and> r < 1 / 100 \<and> b_description b = JStr s"
  let ?c = "\<lparr>c_userId = uid, c_date = request_date rt (b_date b),
             c_description = JStr (String_trim rt s), c_category = b_category b,
             c_type = b_type b, c_amount = parseFloat rt (b_amount b)\<rparr>"
  have e: "amount_error (c_amount ?c) = Some (ValidatorError ''Amount must be greater than 0'')"
    using r by (simp add: amount_error_def)
  then have m: "ValidatorError ''Amount must be greater than 0'' \<in> set (validation_errors rt ?c)"
    by (rule amount_error_mem)
  then have "validation_errors rt ?c \<noteq> []" by auto
  then have v: "validated rt (new_ObjectId rt 0) (Date_now rt) (Date_now rt) ?c = Inl (validation_errors rt ?c)"
    by (rule validated_Inl)
  have "createTransaction rt uid b db = (validation_failure (validation_errors rt ?c), db)"
    using assms r v by (auto simp: createTransaction_def le_zero_def is_income_or_expense_def)
  with m show "\<exists>es. createTransaction rt uid b db = (validation_failure es, db) \<and>
      ValidatorError ''Amount must be greater than 0'' \<in> set es"
    by blast
next
  assume "b_amount b = JNum (Fin r) \<and> 1 / 100 \<le> r"
  then show "\<not> le_zero rt (b_amount b)" by (auto simp: le_zero_def)
next
  assume "b_amount b = JNum (Fin r) \<and> 1 / 100 \<le> r"
  then show "amount_error (parseFloat rt (b_amount b)) = None"
    by (auto simp: amount_error_None)
qed

text \<open>
  C5 says that amount 0 fails with InvalidAmount, as amount -1 does. A create
  request that is valid but for the number 0 as its amount is answered with 400 and
  the required-fields message: \<open>!amount\<close> is true of 0, so the request never
  reaches the check \<open>amount <= 0\<close> that the handler has for it. The same request
  with the string "0" and with -1 as its amount is answered with 400 "Amount must be
  greater than 0".
\<close>

theorem create_amount_zero_required_fields:
  "createTransaction example_rt ''alice'' (example_body\<lparr>b_amount := JNum (Fin 0)\<rparr>) [] =
     (failure 400 ''Please provide all required fields: description, category, type, amount'', []) \<and>
   createTransaction example_rt ''alice'' (example_body\<lparr>b_amount := JStr ''0''\<rparr>) [] =
     (failure 400 ''Amount must be greater than 0'', []) \<and>
   createTransaction example_rt ''alice'' (example_body\<lparr>b_amount := JNum (Fin (- 1))\<rparr>) [] =
     (failure 400 ''Amount must be greater than 0'', [])"
proof -
  have z: "le_zero example_rt (JStr ''0'')"
    by (simp add: le_zero_def example_rt_def digits_number_def digit_value_def)
  show ?thesis
    by (simp add: createTransaction_def example_body_def is_income_or_expense_def z)
      (simp add: le_zero_def)
qed

theorem create_amount_zero_required_fields_witness:
  "fst (createTransaction example_rt ''alice'' (example_body\<lparr>b_amount := JNum (Fin 0)\<rparr>) [])
     \<noteq> failure 400 ''Amount must be greater than 0'' \<and>
   errors (fst (createTransaction example_rt ''alice'' (example_body\<lparr>b_amount := JNum (Fin 0)\<rparr>) []))
     = None \<and>
   fst (createTransaction example_rt ''alice'' (example_body\<lparr>b_amount := JStr ''0''\<rparr>) [])
     = failure 400 ''Amount must be greater than 0''"
  using create_amount_zero_required_fields by (simp add: failure_def)


subsection \<open>The response of a list request\<close>

lemma ToInteger_of_nat: "ToInteger (of_nat k) = int k"
  by (simp add: ToInteger_def)

lemma skip_of_page:
  "1 \<le> p \<Longrightarrow> num_mul (num_sub (Fin (of_nat p)) (Fin 1)) (Fin (of_nat l)) = Fin (of_nat ((p - 1) * l))"
  by (simp add: of_nat_diff)

lemma skip_limit_window:
  "1 \<le> l \<Longrightarrow> skip_limit (Fin (of_nat s)) (Fin (of_nat l)) ds = Some (take l (drop s ds))"
  by (simp add: ToInteger_of_nat)

lemma sort_desc_props:
  "set (sort_desc ds) = set ds" "length (sort_desc ds) = length ds"
  "sorted (map (\<lambda>d. (- date d, - createdAt d)) (sort_desc ds))"
  by (simp_all add: sort_desc_def)

text \<open>
  The response for a page p \<ge> 1 and a limit l \<ge> 1 when the collection accepts
  the filter.
\<close>

lemma page_response:
  assumes "page_number rt q = Fin (of_nat p)" and "1 \<le> p"
    and "limit_number rt q = Fin (of_nat l)" and "1 \<le> l"
    and "castable (build_filter rt uid q)"
  shows
    "getTransactions rt uid q db =
       ok 200 None
         (Page (take l (drop ((p - 1) * l) (sort_desc (filter (matches (build_filter rt uid q)) db))))
            \<lparr>currentPage = Fin (of_nat p),
             totalPages =
               Fin (of_int \<lceil>rat_of_nat (length (filter (matches (build_filter rt uid q)) db)) / rat_of_nat l\<rceil>),
             totalTransactions = length (filter (matches (build_filter rt uid q)) db),
             limit = Fin (of_nat l)\<rparr>)"
proof -
  have l0: "(of_nat l :: rat) \<noteq> 0" using assms(4) by simp
  show ?thesis
    unfolding getTransactions_def Let_def
    by (simp only: assms(1,3,5) skip_of_page [OF assms(2)] skip_limit_window [OF assms(4)])
      (use assms(4) in \<open>simp add: l0\<close>)
qed

text \<open>The first page with the default limit, when the matching documents are known.\<close>

lemma first_page:
  assumes "q_page q = None" and "q_limit q = None"
    and "castable (build_filter rt uid q)"
    and "filter (matches (build_filter rt uid q)) db = ms"
    and "length ms \<le> 10" and "ms \<noteq> []"
  shows "getTransactions rt uid q db =
       ok 200 None
         (Page (sort_desc ms)
            \<lparr>currentPage = Fin 1, totalPages = Fin 1, totalTransactions = length ms,
             limit = Fin 10\<rparr>)"
proof -
  have p: "page_number rt q = Fin (of_nat 1)" "limit_number rt q = Fin (of_nat 10)"
    using assms(1,2) by (simp_all add: page_number_def limit_number_def)
  have "0 < length ms" using assms(6) by simp
  then have c: "\<lceil>rat_of_nat (length ms) / 10\<rceil> = 1"
    using assms(5) by (intro ceiling_unique) simp_all
  show ?thesis
    using page_response [OF p(1) _ p(2) _ assms(3), of db] assms(4,5) c
    by (simp add: sort_desc_props)
qed

subsection \<open>Date scoping of a list request\<close>

lemmas date_eval =
  example_rt_def iso_date_def digits_number_def digit_value_def MakeDay_def DayFromYear_def
  InLeapYear_def DaysBeforeMonth_def msPerDay_def ToInteger_def TimeClip_def

lemmas example_txns =
  example_txn_def salary_txn_def bob_txn_def train_txn_def february_txn_def leap_day_txn_def

lemma page_number_month_year:
  "page_number rt (q\<lparr>q_month := m, q_year := y\<rparr>) = page_number rt q"
  by (simp add: page_number_def)

lemma limit_number_month_year:
  "limit_number rt (q\<lparr>q_month := m, q_year := y\<rparr>) = limit_number rt q"
  by (simp add: limit_number_def)

lemma build_filter_range:
  "truthy (qv (q_startDate q)) \<and> truthy (qv (q_endDate q)) \<Longrightarrow>
   build_filter rt uid (q\<lparr>q_month := m, q_year := y\<rparr>) = build_filter rt uid q"
  by (simp add: build_filter_def date_filter_def)

text \<open>
  The precedence of the date parameters: with both \<open>startDate\<close> and \<open>endDate\<close>
  the response does not depend on \<open>month\<close> and \<open>year\<close>, and a document matches
  the filter exactly when it matches the filter without dates and lies between the
  two dates.
\<close>

lemma explicit_range_wins:
  assumes "truthy (qv (q_startDate q))" and "truthy (qv (q_endDate q))"
  shows "getTransactions rt uid (q\<lparr>q_month := m, q_year := y\<rparr>) db = getTransactions rt uid q db"
    and "new_Date rt (qv (q_startDate q)) = Some lo \<Longrightarrow>
         new_Date rt (qv (q_endDate q)) = Some hi \<Longrightarrow>
         matches (build_filter rt uid q) d \<longleftrightarrow>
           matches ((build_filter rt uid q)\<lparr>f_date := None\<rparr>) d \<and> lo \<le> date d \<and> date d \<le> hi"
proof -
  show "getTransactions rt uid (q\<lparr>q_month := m, q_year := y\<rparr>) db = getTransactions rt uid q db"
    unfolding getTransactions_def
    using assms
    by (simp only: build_filter_range page_number_month_year limit_number_month_year)
  show "matches (build_filter rt uid q) d \<longleftrightarrow>
           matches ((build_filter rt uid q)\<lparr>f_date := None\<rparr>) d \<and> lo \<le> date d \<and> date d \<le> hi"
    if "new_Date rt (qv (q_startDate q)) = Some lo" "new_Date rt (qv (q_endDate q)) = Some hi"
    using assms that by (auto simp: matches_def build_filter_def date_filter_def in_range_def)
qed

lemma scope_filters:
  "build_filter example_rt ''alice'' range_query =
     \<lparr>f_userId = ''alice'', f_type = None, f_category = None,
      f_date = Some (Some 1704844800000, Some 1705708800000)\<rparr>"
  "build_filter example_rt ''alice'' february =
     \<lparr>f_userId = ''alice'', f_type = None, f_category = None,
      f_date = Some (Some 1706745600000, Some 1709164800000)\<rparr>"
  "build_filter example_rt ''alice'' year_2024 =
     \<lparr>f_userId = ''alice'', f_type = None, f_category = None,
      f_date = Some (Some 1704067200000, Some 1735603200000)\<rparr>"
  "build_filter example_rt ''alice'' example_query =
     \<lparr>f_userId = ''alice'', f_type = None, f_category = None, f_date = None\<rparr>"
  by (simp_all add: build_filter_def date_filter_def range_query_def february_def year_2024_def
      example_query_def month_range_def year_range_def date_eval)

lemma scope_defaults:
  "q_page range_query = None" "q_limit range_query = None"
  "q_page year_2024 = None" "q_limit year_2024 = None"
  "q_page example_query = None" "q_limit example_query = None"
  "q_page february = None" "q_limit february = None"
  by (simp_all add: range_query_def year_2024_def february_def example_query_def)

lemma scope_castable:
  "castable (build_filter example_rt ''alice'' range_query)"
  "castable (build_filter example_rt ''alice'' year_2024)"
  "castable (build_filter example_rt ''alice'' example_query)"
  "castable (build_filter example_rt ''alice'' february)"
  by (simp_all add: scope_filters castable_def)

lemma scope_matching:
  "filter (matches (build_filter example_rt ''alice'' range_query)) scope_db = [salary_txn]"
  "filter (matches (build_filter example_rt ''alice'' year_2024)) scope_db =
     [salary_txn, february_txn, leap_day_txn]"
  "filter (matches (build_filter example_rt ''alice'' example_query)) scope_db =
     [salary_txn, february_txn, leap_day_txn]"
  "filter (matches (build_filter example_rt ''alice'' february)) scope_db = [february_txn]"
  by (simp_all add: scope_filters matches_def in_range_def scope_db_def example_txns)

lemma scope_sorted:
  "sort_desc [salary_txn] = [salary_txn]"
  "sort_desc [february_txn] = [february_txn]"
  "sort_desc [salary_txn, february_txn, leap_day_txn] = [leap_day_txn, february_txn, salary_txn]"
  by (simp_all add: sort_desc_def example_txns)

text \<open>
  C3 says that with \<open>month\<close> and \<open>year\<close> the filter covers that month. The
  precedence holds: for a caller with transactions dated 2024-01-15, 2024-02-10 and
  2024-02-29 12:00, the request of the spec (startDate 2024-01-10, endDate
  2024-01-20, month 2, year 2024) lists the one of January alone, year 2024 and no
  date parameter list all three. But month 2 of year 2024 lists the transaction of
  2024-02-10 alone: the one dated 2024-02-29 12:00, a time of the last day of that
  month, is missing, the upper bound being 00:00 of the last day.
\<close>

theorem list_date_scope_scenarios:
  "getTransactions example_rt ''alice'' range_query scope_db =
     ok 200 None
       (Page [salary_txn]
          \<lparr>currentPage = Fin 1, totalPages = Fin 1, totalTransactions = 1, limit = Fin 10\<rparr>) \<and>
   getTransactions example_rt ''alice'' year_2024 scope_db =
     ok 200 None
       (Page [leap_day_txn, february_txn, salary_txn]
          \<lparr>currentPage = Fin 1, totalPages = Fin 1, totalTransactions = 3, limit = Fin 10\<rparr>) \<and>
   getTransactions example_rt ''alice'' example_query scope_db =
     ok 200 None
       (Page [leap_day_txn, february_txn, salary_txn]
          \<lparr>currentPage = Fin 1, totalPages = Fin 1, totalTransactions = 3, limit = Fin 10\<rparr>) \<and>
   getTransactions example_rt ''alice'' february scope_db =
     ok 200 None
       (Page [february_txn]
          \<lparr>currentPage = Fin 1, totalPages = Fin 1, totalTransactions = 1, limit = Fin 10\<rparr>) \<and>
   userId leap_day_txn = ''alice'' \<and> in_calendar_month 2024 2 (date leap_day_txn)"
proof -
  have 1: "getTransactions example_rt ''alice'' range_query scope_db =
     ok 200 None
       (Page [salary_txn]
          \<lparr>currentPage = Fin 1, totalPages = Fin 1, totalTransactions = 1, limit = Fin 10\<rparr>)"
    using first_page [OF scope_defaults(1,2) scope_castable(1) scope_matching(1)]
    by (simp add: scope_sorted numeral_3_eq_3)
  have 2: "getTransactions example_rt ''alice'' year_2024 scope_db =
     ok 200 None
       (Page [leap_day_txn, february_txn, salary_txn]
          \<lparr>currentPage = Fin 1, totalPages = Fin 1, totalTransactions = 3, limit = Fin 10\<rparr>)"
    using first_page [OF scope_defaults(3,4) scope_castable(2) scope_matching(2)]
    by (simp add: scope_sorted numeral_3_eq_3)
  have 3: "getTransactions example_rt ''alice'' example_query scope_db =
     ok 200 None
       (Page [leap_day_txn, february_txn, salary_txn]
          \<lparr>currentPage = Fin 1, totalPages = Fin 1, totalTransactions = 3, limit = Fin 10\<rparr>)"
    using first_page [OF scope_defaults(5,6) scope_castable(3) scope_matching(3)]
    by (simp add: scope_sorted numeral_3_eq_3)
  have 4: "getTransactions example_rt ''alice'' february scope_db =
     ok 200 None
       (Page [february_txn]
          \<lparr>currentPage = Fin 1, totalPages = Fin 1, totalTransactions = 1, limit = Fin 10\<rparr>)"
    using first_page [OF scope_defaults(7,8) scope_castable(4) scope_matching(4)]
    by (simp add: scope_sorted numeral_3_eq_3)
  have 5: "userId leap_day_txn = ''alice'' \<and> in_calendar_month 2024 2 (date leap_day_txn)"
    by (simp add: leap_day_txn_def example_txn_def in_calendar_month_def MakeDay_def
        DayFromYear_def InLeapYear_def DaysBeforeMonth_def msPerDay_def)
  show ?thesis using 1 2 3 4 5 by blast
qed

subsection \<open>The range of a month and of a year\<close>

lemma january_range:
  "month_range example_rt (JStr ''1'') (JStr ''2024'') = (Some 1704067200000, Some 1706659200000)"
  by (simp add: month_range_def date_eval)

lemma year_2024_range:
  "year_range example_rt (JStr ''2024'') = (Some 1704067200000, Some 1735603200000)"
  by (simp add: year_range_def date_eval)

lemma january_filter:
  "build_filter example_rt ''alice'' january =
     \<lparr>f_userId = ''alice'', f_type = None, f_category = None,
      f_date = Some (Some 1704067200000, Some 1706659200000)\<rparr>"
  by (simp add: build_filter_def date_filter_def january_def example_query_def january_range)

lemma year_2024_filter:
  "build_filter example_rt ''alice'' year_2024 =
     \<lparr>f_userId = ''alice'', f_type = None, f_category = None,
      f_date = Some (Some 1704067200000, Some 1735603200000)\<rparr>"
  by (simp add: build_filter_def date_filter_def year_2024_def example_query_def year_2024_range)

lemma empty_page:
  assumes "castable (build_filter rt uid q)"
    and "\<not> matches (build_filter rt uid q) d"
    and "page_number rt q = Fin 1" and "limit_number rt q = Fin 10"
  shows "getTransactions rt uid q [d] =
     ok 200 None
       (Page [] \<lparr>currentPage = Fin 1, totalPages = Fin 0, totalTransactions = 0, limit = Fin 10\<rparr>)"
  unfolding getTransactions_def using assms by (simp add: sort_desc_def)

lemma empty_statistics:
  assumes "\<not> stats_match uid (stats_date_filter rt q) d" and "to_double rt 0 = Fin 0"
  shows "getStatistics rt uid q [d] = ok 200 None (Stats zero_statistics)"
  using assms
  by (simp add: getStatistics_def compute_statistics_def group_by_type_def zero_statistics_def)

lemma example_double_zero: "to_double example_rt 0 = Fin 0"
  by (simp add: example_rt_def)

text \<open>
  The upper bound that \<open>month\<close> and \<open>year\<close> give is one day before the first
  instant of the following month: it is the first instant of the last day.
\<close>

lemma month_range_upper:
  assumes "LocalTZA rt = (\<lambda>t. z)"
    and "Date_ymd rt y m (Fin 1) = Some n" and "Date_ymd rt y m (Fin 0) = Some hi"
  shows "hi = n - msPerDay"
proof -
  obtain yr mr where "y = Fin yr" "m = Fin mr"
    using assms(2) by (cases y; cases m) auto
  then show ?thesis
    using assms
    by (auto simp: Let_def MakeDay_def TimeClip_def ToInteger_def algebra_simps split: if_splits)
qed

text \<open>
  C4 says that a month or a year covers every time of its last day. The handlers
  take \<open>new Date(year, month, 0)\<close> and \<open>new Date(year, 11, 31)\<close> as the upper
  bound, which is 00:00:00.000 of the last day. A transaction of the caller dated
  2024-01-31 12:00 is left out of the list and of the statistics for month 1 of 2024,
  and one dated 2024-12-31 12:00 is left out of those for the year 2024.
\<close>

theorem month_filter_misses_last_day:
  "userId example_txn = ''alice'' \<and> date example_txn = 1706702400000 \<and>
   getTransactions example_rt ''alice'' january [example_txn] =
     ok 200 None
       (Page [] \<lparr>currentPage = Fin 1, totalPages = Fin 0, totalTransactions = 0, limit = Fin 10\<rparr>) \<and>
   getStatistics example_rt ''alice'' january [example_txn] = ok 200 None (Stats zero_statistics) \<and>
   getTransactions example_rt ''alice'' year_2024 [example_txn\<lparr>date := 1735646400000\<rparr>] =
     ok 200 None
       (Page [] \<lparr>currentPage = Fin 1, totalPages = Fin 0, totalTransactions = 0, limit = Fin 10\<rparr>) \<and>
   getStatistics example_rt ''alice'' year_2024 [example_txn\<lparr>date := 1735646400000\<rparr>] =
     ok 200 None (Stats zero_statistics)"
proof -
  have p: "page_number example_rt january = Fin 1" "limit_number example_rt january = Fin 10"
      "page_number example_rt year_2024 = Fin 1" "limit_number example_rt year_2024 = Fin 10"
    by (simp_all add: page_number_def limit_number_def january_def year_2024_def example_query_def)
  have l: "getTransactions example_rt ''alice'' january [example_txn] =
     ok 200 None
       (Page [] \<lparr>currentPage = Fin 1, totalPages = Fin 0, totalTransactions = 0, limit = Fin 10\<rparr>)"
    by (rule empty_page)
      (simp_all add: january_filter castable_def matches_def in_range_def example_txn_def p)
  have ly: "getTransactions example_rt ''alice'' year_2024 [example_txn\<lparr>date := 1735646400000\<rparr>] =
     ok 200 None
       (Page [] \<lparr>currentPage = Fin 1, totalPages = Fin 0, totalTransactions = 0, limit = Fin 10\<rparr>)"
    by (rule empty_page)
      (simp_all add: year_2024_filter castable_def matches_def in_range_def example_txn_def p)
  have sf: "stats_date_filter example_rt january = Some (Some 1704067200000, Some 1706659200000)"
    by (simp add: stats_date_filter_def january_def example_query_def january_range)
  have s: "getStatistics example_rt ''alice'' january [example_txn] = ok 200 None (Stats zero_statistics)"
    by (rule empty_statistics) (simp_all add: example_double_zero sf stats_match_def bson_date_def in_range_def example_txn_def)
  have sfy: "stats_date_filter example_rt year_2024 = Some (Some 1704067200000, Some 1735603200000)"
    by (simp add: stats_date_filter_def year_2024_def example_query_def year_2024_range)
  have sy: "getStatistics example_rt ''alice'' year_2024 [example_txn\<lparr>date := 1735646400000\<rparr>]
      = ok 200 None (Stats zero_statistics)"
    by (rule empty_statistics) (simp_all add: example_double_zero sfy stats_match_def bson_date_def in_range_def example_txn_def)
  show ?thesis using l s ly sy by (simp add: example_txn_def)
qed

subsection \<open>Pagination\<close>

lemma second_page_filter:
  "build_filter example_rt ''alice'' second_page =
     \<lparr>f_userId = ''alice'', f_type = None, f_category = None, f_date = None\<rparr>"
  by (simp add: build_filter_def date_filter_def second_page_def example_query_def)

lemma second_page_matching:
  "filter (matches (build_filter example_rt ''alice'' second_page)) example_db =
     [example_txn, salary_txn, train_txn]"
  by (simp add: second_page_filter matches_def example_db_def example_txns)

lemma second_page_sorted:
  "sort_desc [example_txn, salary_txn, train_txn] = [train_txn, example_txn, salary_txn]"
  by (simp add: sort_desc_def example_txns)

text \<open>
  C7, as the claim states it, fails for a limit of 0: the window then holds every
  matching document from the offset on, more than l = 0 of them, and totalPages is
  Infinity.
\<close>

theorem pagination_limit_zero_counterexample:
  "limit_number example_rt zero_limit = Fin 0 \<and>
   getTransactions example_rt ''alice'' zero_limit example_db =
     ok 200 None
       (Page [train_txn, example_txn, salary_txn]
          \<lparr>currentPage = Fin 1, totalPages = PInf, totalTransactions = 3, limit = Fin 0\<rparr>) \<and>
   \<not> length [train_txn, example_txn, salary_txn] \<le> (0 :: nat)"
proof -
  have f: "build_filter example_rt ''alice'' zero_limit =
     \<lparr>f_userId = ''alice'', f_type = None, f_category = None, f_date = None\<rparr>"
    by (simp add: build_filter_def date_filter_def zero_limit_def example_query_def)
  have m: "filter (matches (build_filter example_rt ''alice'' zero_limit)) example_db =
     [example_txn, salary_txn, train_txn]"
    by (simp add: f matches_def example_db_def example_txns)
  have p: "page_number example_rt zero_limit = Fin 1" "limit_number example_rt zero_limit = Fin 0"
    by (simp_all add: page_number_def limit_number_def zero_limit_def example_query_def
        example_rt_def digits_number_def digit_value_def)
  have c: "castable (build_filter example_rt ''alice'' zero_limit)"
    by (simp add: f castable_def)
  show ?thesis
    unfolding getTransactions_def Let_def
    by (simp add: p c m second_page_sorted ToInteger_def numeral_3_eq_3)
qed

text \<open>
  C7, amended. For a list request whose page parses to p \<ge> 1 and whose limit
  parses to l \<ge> 1 (1 and 10 when the parameter is absent) and whose filter the
  collection accepts, the response is 200 and carries: the window of at most l
  documents that starts at offset (p - 1) * l of the matching documents sorted by
  date and creation time, newest first; totalTransactions, the number of all matching
  documents; totalPages = ceil(totalTransactions / l). With 25 matching documents,
  limit 10 and page 3, totalPages is 3 and the window has the remaining 5 documents.
\<close>

theorem pagination_window:
  assumes "page_number rt q = Fin (of_nat p)" and "1 \<le> p"
    and "limit_number rt q = Fin (of_nat l)" and "1 \<le> l"
    and "castable (build_filter rt uid q)"
  shows
    "getTransactions rt uid q db =
       ok 200 None
         (Page (take l (drop ((p - 1) * l) (sort_desc (filter (matches (build_filter rt uid q)) db))))
            \<lparr>currentPage = Fin (of_nat p),
             totalPages =
               Fin (of_int \<lceil>rat_of_nat (length (filter (matches (build_filter rt uid q)) db)) / rat_of_nat l\<rceil>),
             totalTransactions = length (filter (matches (build_filter rt uid q)) db),
             limit = Fin (of_nat l)\<rparr>) \<and>
     length (take l (drop ((p - 1) * l) (sort_desc (filter (matches (build_filter rt uid q)) db)))) \<le> l \<and>
     (length (filter (matches (build_filter rt uid q)) db) = 25 \<and> l = 10 \<and> p = 3 \<longrightarrow>
        Fin (of_int \<lceil>rat_of_nat (length (filter (matches (build_filter rt uid q)) db)) / rat_of_nat l\<rceil>) = Fin 3 \<and>
        length (take l (drop ((p - 1) * l) (sort_desc (filter (matches (build_filter rt uid q)) db)))) = 5) \<and>
     (q_page q = None \<longrightarrow> page_number rt q = Fin 1) \<and>
     (q_limit q = None \<longrightarrow> limit_number rt q = Fin 10)"
proof (intro conjI impI)
  show "getTransactions rt uid q db =
       ok 200 None
         (Page (take l (drop ((p - 1) * l) (sort_desc (filter (matches (build_filter rt uid q)) db))))
            \<lparr>currentPage = Fin (of_nat p),
             totalPages =
               Fin (of_int \<lceil>rat_of_nat (length (filter (matches (build_filter rt uid q)) db)) / rat_of_nat l\<rceil>),
             totalTransactions = length (filter (matches (build_filter rt uid q)) db),
             limit = Fin (of_nat l)\<rparr>)"
    by (rule page_response [OF assms])
next
  show "length (take l (drop ((p - 1) * l) (sort_desc (filter (matches (build_filter rt uid q)) db)))) \<le> l"
    by simp
next
  assume a: "length (filter (matches (build_filter rt uid q)) db) = 25 \<and> l = 10 \<and> p = 3"
  have "\<lceil>(25 :: rat) / 10\<rceil> = 3" by (rule ceiling_unique) simp_all
  with a show "Fin (of_int \<lceil>rat_of_nat (length (filter (matches (build_filter rt uid q)) db)) / rat_of_nat l\<rceil>) = Fin 3"
    by simp
next
  assume a: "length (filter (matches (build_filter rt uid q)) db) = 25 \<and> l = 10 \<and> p = 3"
  then show "length (take l (drop ((p - 1) * l) (sort_desc (filter (matches (build_filter rt uid q)) db)))) = 5"
    by (simp add: sort_desc_props)
next
  assume "q_page q = None" then show "page_number rt q = Fin 1" by (simp add: page_number_def)
next
  assume "q_limit q = None" then show "limit_number rt q = Fin 10" by (simp add: limit_number_def)
qed

theorem pagination_window_witness:
  "page_number example_rt second_page = Fin 2 \<and> limit_number example_rt second_page = Fin 2 \<and>
   castable (build_filter example_rt ''alice'' second_page) \<and>
   getTransactions example_rt ''alice'' second_page example_db =
     ok 200 None
       (Page [salary_txn]
          \<lparr>currentPage = Fin 2, totalPages = Fin 2, totalTransactions = 3, limit = Fin 2\<rparr>)"
proof -
  have p: "page_number example_rt second_page = Fin (of_nat 2)"
      "limit_number example_rt second_page = Fin (of_nat 2)"
    by (simp_all add: page_number_def limit_number_def second_page_def example_query_def
        example_rt_def digits_number_def digit_value_def)
  have c: "castable (build_filter example_rt ''alice'' second_page)"
    by (simp add: second_page_filter castable_def)
  have e: "\<lceil>(3 :: rat) / 2\<rceil> = 2" by (rule ceiling_unique) simp_all
  show ?thesis
    using pagination_window [OF p(1) _ p(2) _ c, of example_db] p c
    by (simp add: second_page_matching second_page_sorted e numeral_3_eq_3)
qed

subsection \<open>Statistics\<close>

lemma fold_collect:
  "fold collect (map (\<lambda>t. (t, S t, N t)) ts) r =
     r\<lparr>totalIncome := (if ''income'' \<in> set ts then S ''income'' else totalIncome r),
       incomeCount := (if ''income'' \<in> set ts then N ''income'' else incomeCount r),
       totalExpense := (if ''expense'' \<in> set ts then S ''expense'' else totalExpense r),
       expenseCount := (if ''expense'' \<in> set ts then N ''expense'' else expenseCount r)\<rparr>"
proof (induction ts arbitrary: r)
  case Nil
  show ?case by simp
next
  case (Cons t ts)
  show ?case by (simp add: Cons.IH)
qed

lemma sum_amounts_Nil: "sum_amounts rt [] = Fin 0"
  by (simp add: sum_amounts_def)

lemma filter_type_empty: "t \<notin> set (map type ds) \<Longrightarrow> filter (\<lambda>d. type d = t) ds = []"
  by (induction ds) auto

lemma collected_statistics:
  "fold collect (group_by_type rt ds) zero_statistics =
     \<lparr>totalIncome = sum_amounts rt (filter (\<lambda>d. type d = ''income'') ds),
      totalExpense = sum_amounts rt (filter (\<lambda>d. type d = ''expense'') ds),
      incomeCount = length (filter (\<lambda>d. type d = ''income'') ds),
      expenseCount = length (filter (\<lambda>d. type d = ''expense'') ds),
      netAmount = Fin 0\<rparr>"
  unfolding group_by_type_def
  by (simp only: fold_collect)
    (simp add: zero_statistics_def sum_amounts_Nil filter_type_empty)

text \<open>
  The result of a statistics request, from the documents that its \<open>$match\<close>
  stage lets through: the sums and counts of the income and of the expense documents
  among them (0 for a type that does not occur), and their difference.
\<close>

lemma statistics_of_matched:
  "compute_statistics rt uid q db =
     \<lparr>totalIncome =
        sum_amounts rt
          (filter (\<lambda>d. type d = ''income'') (filter (stats_match uid (stats_date_filter rt q)) db)),
      totalExpense =
        sum_amounts rt
          (filter (\<lambda>d. type d = ''expense'') (filter (stats_match uid (stats_date_filter rt q)) db)),
      incomeCount =
        length
          (filter (\<lambda>d. type d = ''income'') (filter (stats_match uid (stats_date_filter rt q)) db)),
      expenseCount =
        length
          (filter (\<lambda>d. type d = ''expense'') (filter (stats_match uid (stats_date_filter rt q)) db)),
      netAmount =
        amount_sub rt
          (sum_amounts rt
             (filter (\<lambda>d. type d = ''income'') (filter (stats_match uid (stats_date_filter rt q)) db)))
          (sum_amounts rt
             (filter (\<lambda>d. type d = ''expense'') (filter (stats_match uid (stats_date_filter rt q)) db)))\<rparr>"
  unfolding compute_statistics_def Let_def
  by (simp only: collected_statistics) simp

lemma net_amount:
  "netAmount (compute_statistics rt uid q db) =
     amount_sub rt (totalIncome (compute_statistics rt uid q db))
       (totalExpense (compute_statistics rt uid q db))"
  by (simp add: statistics_of_matched)

text \<open>
  C8 says that totalIncome and incomeCount are the sum and the number of the
  caller's income transactions in range. The caller has two incomes in January 2024,
  5000 on 2024-01-15 and 1000 on 2024-01-31 at 12:00. The statistics for month 1 of
  year 2024 give totalIncome 5000, incomeCount 1 and netAmount 5000: the income of
  the last day is not counted, the \<open>$match\<close> stage having 00:00 of the last day as
  its upper bound.
\<close>

theorem statistics_miss_last_day:
  "getStatistics example_rt ''alice'' january [salary_txn, january_bonus] =
     ok 200 None
       (Stats \<lparr>totalIncome = Fin 5000, totalExpense = Fin 0, incomeCount = 1, expenseCount = 0,
               netAmount = Fin 5000\<rparr>) \<and>
   userId salary_txn = ''alice'' \<and> type salary_txn = ''income'' \<and> amount salary_txn = Fin 5000 \<and>
   in_calendar_month 2024 1 (date salary_txn) \<and>
   userId january_bonus = ''alice'' \<and> type january_bonus = ''income'' \<and>
   amount january_bonus = Fin 1000 \<and> in_calendar_month 2024 1 (date january_bonus)"
proof -
  have sf: "stats_date_filter example_rt january = Some (Some 1704067200000, Some 1706659200000)"
    by (simp add: stats_date_filter_def january_def example_query_def january_range)
  have m: "filter (stats_match ''alice'' (stats_date_filter example_rt january))
      [salary_txn, january_bonus] = [salary_txn]"
    by (simp add: sf stats_match_def bson_date_def in_range_def salary_txn_def january_bonus_def
        example_txn_def)
  have s: "sum_amounts example_rt [salary_txn] = Fin 5000"
    by (simp add: sum_amounts_def salary_txn_def example_txn_def example_rt_def)
  have t: "type salary_txn = ''income''"
    by (simp add: salary_txn_def example_txn_def)
  have c: "compute_statistics example_rt ''alice'' january [salary_txn, january_bonus] =
      \<lparr>totalIncome = Fin 5000, totalExpense = Fin 0, incomeCount = 1, expenseCount = 0,
       netAmount = Fin 5000\<rparr>"
  proof -
    have fi: "filter (\<lambda>d. type d = ''income'') [salary_txn] = [salary_txn]"
      and fe: "filter (\<lambda>d. type d = ''expense'') [salary_txn] = []"
      by (simp_all add: t)
    have sub: "amount_sub example_rt (Fin 5000) (Fin 0) = Fin 5000"
      by (simp add: example_rt_def)
    show ?thesis
      by (simp only: statistics_of_matched m fi fe s sum_amounts_Nil sub) simp
  qed
  have d: "in_calendar_month 2024 1 (date salary_txn)"
      "in_calendar_month 2024 1 (date january_bonus)"
    by (simp_all add: salary_txn_def january_bonus_def example_txn_def in_calendar_month_def
        MakeDay_def DayFromYear_def InLeapYear_def DaysBeforeMonth_def msPerDay_def)
  show ?thesis
    using c d by (simp add: getStatistics_def salary_txn_def january_bonus_def example_txn_def)
qed

subsection \<open>Bulk creation\<close>

lemma bulk_empty:
  "transactions = None \<or> transactions = Some [] \<Longrightarrow>
   bulkCreateTransactions rt insertMany uid transactions db =
     (failure 400 ''Please provide an array of transactions'', db)"
  by (auto simp: bulkCreateTransactions_def)

lemma bulk_write_error:
  assumes "rows \<noteq> []"
    and "insertMany (map (stamp rt uid) rows) db = (Thrown e, db')"
    and "err_name e = ''BulkWriteError''"
  shows "bulkCreateTransactions rt insertMany uid (Some rows) db =
     (ok 207 (Some (CreatedFailed (insertedCount e) (failureCount e)))
        (Partial (insertedCount e) (failureCount e) (writeErrors e)), db')"
  using assms by (cases rows) (simp_all add: bulkCreateTransactions_def)

lemma bulk_resolved:
  "rows \<noteq> [] \<Longrightarrow>
   bulkCreateTransactions rt (Transaction_insertMany rt) uid (Some rows) db =
     (ok 201 (Some (CreatedCount (length (insert_valid rt 0 (map (stamp rt uid) rows)))))
        (Created (insert_valid rt 0 (map (stamp rt uid) rows))),
      db @ insert_valid rt 0 (map (stamp rt uid) rows))"
  by (cases rows) (simp_all add: bulkCreateTransactions_def Transaction_insertMany_def)

lemma stamp_example:
  "stamp example_rt ''alice'' example_body =
     \<lparr>c_userId = ''alice'', c_date = Some 1705276800000,
      c_description = JStr ''Grocery Shopping'', c_category = JStr ''Food & Dining'',
      c_type = JStr ''expense'', c_amount = Fin (171 / 2)\<rparr>"
  "stamp example_rt ''alice'' bad_row =
     \<lparr>c_userId = ''alice'', c_date = Some 1705276800000,
      c_description = JStr ''Refund'', c_category = JStr ''Food & Dining'',
      c_type = JStr ''expense'', c_amount = Fin (- 5)\<rparr>"
  using request_date_example
  by (simp_all add: stamp_def bad_row_def example_body_def)

lemma validated_example:
  "validated example_rt (new_ObjectId example_rt 0) (Date_now example_rt) (Date_now example_rt)
     (stamp example_rt ''alice'' example_body) = Inr grocery_txn"
proof -
  have "validation_errors example_rt (stamp example_rt ''alice'' example_body) = []"
    by (simp add: stamp_example validation_errors_Nil date_error_def description_error_def
        cast_description_def trim_example category_error_def categories_def type_error_def
        types_def amount_error_def)
  then show ?thesis
    by (simp add: validated_def stamp_example grocery_txn_def cast_description_def trim_example)
qed

lemma validated_bad_row:
  "validated example_rt i c u (stamp example_rt ''alice'' bad_row) =
     Inl [ValidatorError ''Amount must be greater than 0'']"
proof -
  have t: "String_trim example_rt ''Refund'' = ''Refund''"
    by (simp add: example_rt_def latin1_trim_def latin1_space_def)
  have "validation_errors example_rt (stamp example_rt ''alice'' bad_row) =
      [ValidatorError ''Amount must be greater than 0'']"
    by (simp add: stamp_example validation_errors_def date_error_def description_error_def
        cast_description_def t category_error_def categories_def type_error_def
        types_def amount_error_def)
  then show ?thesis by (simp add: validated_def)
qed

lemma bulk_never_partial:
  "status (fst (bulkCreateTransactions rt (Transaction_insertMany rt) uid transactions db))
     \<in> {400, 201}"
proof (cases "transactions = None \<or> transactions = Some []")
  case True
  then show ?thesis by (simp add: bulk_empty failure_def)
next
  case False
  then obtain rows where "transactions = Some rows" "rows \<noteq> []" by auto
  then show ?thesis by (simp add: bulk_resolved ok_def)
qed

text \<open>
  C9 says that a batch with an invalid record is answered with 207 and the counts of
  created and failed records. The handler answers 207 only when \<open>insertMany\<close>
  throws a BulkWriteError (lemma \<open>bulk_write_error\<close>), and Mongoose's unordered
  \<open>insertMany\<close> does not throw for a record that fails validation: it leaves the
  record out. For a batch of one valid record and one with amount -5 the response is
  201 with "1 transactions created successfully" and the one created document; the
  failed record is not reported.
\<close>

theorem bulk_invalid_row_unreported:
  "bulkCreateTransactions example_rt (Transaction_insertMany example_rt) ''alice''
     (Some [example_body, bad_row]) [] =
     (ok 201 (Some (CreatedCount 1)) (Created [grocery_txn]), [grocery_txn]) \<and>
   status (fst (bulkCreateTransactions example_rt (Transaction_insertMany example_rt) ''alice''
     (Some [example_body, bad_row]) [])) \<noteq> 207"
proof -
  have "insert_valid example_rt 0 (map (stamp example_rt ''alice'') [example_body, bad_row])
      = [grocery_txn]"
    by (simp add: validated_example validated_bad_row)
  then show ?thesis
    by (simp add: bulk_resolved ok_def)
qed

subsection \<open>Updating a transaction\<close>

lemma schema_valid_fields:
  assumes "schema_valid rt d"
  shows "String_trim rt (description d) = description d"
    and "description d \<noteq> []" and "length (description d) \<le> 200"
    and "category d \<in> set categories" and "type d \<in> set types"
    and "amount_error (amount d) = None"
proof -
  have v: "validated rt (tid d) (createdAt d) (updatedAt d) (loaded d) = Inr d"
    using assms by (simp add: schema_valid_def)
  then have e: "validation_errors rt (loaded d) = []"
    by (auto simp: validated_def split: if_splits)
  from v e have "d = \<lparr>tid = tid d, userId = userId d, date = date d,
        description = String_trim rt (description d), category = category d, type = type d,
        amount = amount d, createdAt = createdAt d, updatedAt = updatedAt d\<rparr>"
    by (simp add: validated_def loaded_def cast_description_def)
  then have "description d = description \<lparr>tid = tid d, userId = userId d, date = date d,
        description = String_trim rt (description d), category = category d, type = type d,
        amount = amount d, createdAt = createdAt d, updatedAt = updatedAt d\<rparr>"
    by simp
  then show t: "String_trim rt (description d) = description d" by simp
  from e have f: "description_error rt (JStr (description d)) = None"
      "category_error rt (JStr (category d)) = None" "type_error rt (JStr (type d)) = None"
      "amount_error (amount d) = None"
    by (simp_all add: validation_errors_Nil loaded_def)
  from f(1) t show "description d \<noteq> []" "length (description d) \<le> 200"
    by (auto simp: description_error_def cast_description_def split: if_splits)
  from f(2) show "category d \<in> set categories"
    by (auto simp: category_error_def split: if_splits)
  from f(3) show "type d \<in> set types"
    by (auto simp: type_error_def split: if_splits)
  from f(4) show "amount_error (amount d) = None" .
qed

lemma truthy_income_or_expense: "is_income_or_expense v \<Longrightarrow> truthy v"
  by (auto simp: is_income_or_expense_def)

lemma category_nonempty: "c \<in> set categories \<Longrightarrow> c \<noteq> []"
  by (auto simp: categories_def)

lemma income_or_expense_types: "is_income_or_expense (JStr ty) \<longleftrightarrow> ty \<in> set types"
  by (auto simp: is_income_or_expense_def types_def)

lemma amount_error_nonzero: "amount_error a = None \<Longrightarrow> a \<noteq> Fin 0"
  by (auto simp: amount_error_None)

text \<open>
  A candidate whose description is cast to \<open>s\<close> by the schema, with \<open>s\<close> not empty
  and of at most 200 characters, and whose other fields pass their validators, is saved.
\<close>

lemma save_valid:
  assumes "cast_description rt v = s" and "s \<noteq> []" and "length s \<le> 200"
    and "c \<in> set categories" and "ty \<in> set types" and "amount_error a = None"
  shows "save rt old
           \<lparr>c_userId = userId old, c_date = Some t, c_description = v,
            c_category = JStr c, c_type = JStr ty, c_amount = a\<rparr> =
         Inr (touch rt old
                (old\<lparr>date := t, description := s, category := c, type := ty, amount := a\<rparr>))"
proof -
  let ?cand = "\<lparr>c_userId = userId old, c_date = Some t, c_description = v,
            c_category = JStr c, c_type = JStr ty, c_amount = a\<rparr>"
  have e: "validation_errors rt ?cand = []"
    using assms category_nonempty [of c]
    by (auto simp: validation_errors_Nil date_error_def description_error_def
        category_error_def type_error_def types_def)
  have "validated rt (tid old) (createdAt old) (updatedAt old) ?cand =
      Inr (old\<lparr>date := t, description := s, category := c, type := ty, amount := a\<rparr>)"
    by (subst validated_Inr [OF e, of t]) (simp_all add: assms(1))
  then show ?thesis by (simp add: save_def touch_def)
qed

lemma trim_Lunch: "String_trim example_rt ''Lunch'' = ''Lunch''"
  by (simp add: example_rt_def latin1_trim_def latin1_space_def)

lemma example_txn_valid: "schema_valid example_rt example_txn"
proof -
  have "validation_errors example_rt (loaded example_txn) = []"
    by (simp add: validation_errors_Nil loaded_def example_txn_def date_error_def
        description_error_def cast_description_def trim_Lunch category_error_def categories_def
        type_error_def types_def amount_error_def)
  then show ?thesis
    unfolding schema_valid_def
    by (subst validated_Inr [of _ _ "date example_txn"])
      (simp_all add: loaded_def example_txn_def cast_description_def trim_Lunch)
qed

lemma example_txn_found:
  "isValidObjectId example_rt (tid example_txn)"
  "findOne (owned_with_id (tid example_txn) ''alice'') example_db = Some example_txn"
  by (simp_all add: example_rt_def example_txn_def hex_digit_def findOne_def owned_with_id_def
      example_db_def)

lemma update_found:
  assumes "isValidObjectId rt i" and "findOne (owned_with_id i uid) db = Some old"
  shows "updateTransaction rt uid i b db =
     (case assign_description rt (b_description b) (assign_date rt (b_date b) (loaded old)) of
        None \<Rightarrow> (failure 500 ''Server error while updating transaction'', db)
      | Some c \<Rightarrow>
          (case save rt old
                  (assign_amount rt (b_amount b)
                     (assign_type (b_type b) (assign_category (b_category b) c))) of
             Inl es \<Rightarrow> (validation_failure es, db)
           | Inr transaction \<Rightarrow>
               (ok 200 (Some (Text ''Transaction updated successfully''))
                  (OneTransaction transaction),
                replace_first (owned_with_id i uid) transaction db)))"
  by (simp add: updateTransaction_def assms)

lemma save_invalid:
  "e \<in> set (validation_errors rt c) \<Longrightarrow> save rt old c = Inl (validation_errors rt c)"
  by (auto simp: save_def validated_def)

lemma assign_type_skip:
  "\<not> is_income_or_expense v \<Longrightarrow> assign_type v c = c"
  by (simp add: assign_type_def)

lemma assign_amount_skip:
  "\<not> (truthy v \<and> gt_zero rt v) \<Longrightarrow> assign_amount rt v c = c"
  by (auto simp: assign_amount_def)

lemma assign_description_cases:
  assumes "assign_description rt v c = Some c'"
  shows "(\<not> truthy v \<and> c' = c) \<or>
         (\<exists>x. v = JStr x \<and> x \<noteq> [] \<and> c' = c\<lparr>c_description := JStr (String_trim rt x)\<rparr>)"
  using assms by (cases v) (auto simp: assign_description_def split: if_splits)

lemma assign_description_string:
  "\<not> truthy v \<or> (\<exists>x. v = JStr x) \<Longrightarrow> \<exists>c'. assign_description rt v c = Some c'"
  by (auto simp: assign_description_def)

lemma final_candidate_fields:
  assumes "assign_description rt d (assign_date rt dt (loaded old)) = Some c1"
  shows "c_date (assign_amount rt a (assign_type ty (assign_category ca c1))) =
           (if truthy dt then new_Date rt dt else Some (date old))"
    and "c_category (assign_amount rt a (assign_type ty (assign_category ca c1))) =
           (if truthy ca then ca else JStr (category old))"
    and "c_type (assign_amount rt a (assign_type ty (assign_category ca c1))) =
           (if truthy ty \<and> is_income_or_expense ty then ty else JStr (type old))"
    and "c_amount (assign_amount rt a (assign_type ty (assign_category ca c1))) =
           (if truthy a \<and> gt_zero rt a then parseFloat rt a else amount old)"
    and "\<not> truthy d \<Longrightarrow>
         c_description (assign_amount rt a (assign_type ty (assign_category ca c1))) =
           JStr (description old)"
    and "d = JStr x \<Longrightarrow> x \<noteq> [] \<Longrightarrow>
         c_description (assign_amount rt a (assign_type ty (assign_category ca c1))) =
           JStr (String_trim rt x)"
    and "c_userId (assign_amount rt a (assign_type ty (assign_category ca c1))) = userId old"
  using assign_description_cases [OF assms]
  by (auto simp: assign_amount_def assign_type_def assign_category_def assign_date_def loaded_def)

lemma touch_fields:
  "date (touch rt old m) = date m" "description (touch rt old m) = description m"
  "category (touch rt old m) = category m" "type (touch rt old m) = type m"
  "amount (touch rt old m) = amount m" "tid (touch rt old m) = tid m"
  "userId (touch rt old m) = userId m" "createdAt (touch rt old m) = createdAt m"
  by (simp_all add: touch_def)

lemma save_fields:
  assumes "save rt old c = Inr n"
  shows "c_date c = Some (date n)" and "description n = cast_description rt (c_description c)"
    and "category n = cast_string rt (c_category c)" and "type n = cast_string rt (c_type c)"
    and "amount n = c_amount c" and "tid n = tid old" and "userId n = c_userId c"
    and "createdAt n = createdAt old"
proof -
  have e: "validation_errors rt c = []"
    using assms by (auto simp: save_def validated_def split: if_splits)
  then obtain t where t: "c_date c = Some t"
    by (auto simp: validation_errors_Nil date_error_None)
  have n: "n = touch rt old
      \<lparr>tid = tid old, userId = c_userId c, date = t,
       description = cast_description rt (c_description c),
       category = cast_string rt (c_category c), type = cast_string rt (c_type c),
       amount = c_amount c, createdAt = createdAt old, updatedAt = updatedAt old\<rparr>"
    using assms by (simp add: save_def validated_Inr [OF e t] touch_def)
  show "c_date c = Some (date n)" "description n = cast_description rt (c_description c)"
    "category n = cast_string rt (c_category c)" "type n = cast_string rt (c_type c)"
    "amount n = c_amount c" "tid n = tid old" "userId n = c_userId c"
    "createdAt n = createdAt old"
    by (simp_all add: n t touch_fields)
qed

text \<open>What \<open>save\<close> writes has passed every validator of the schema.\<close>

lemma save_passed:
  assumes "save rt old c = Inr n"
  shows "description n \<noteq> []" and "length (description n) \<le> 200"
    and "category n \<in> set categories" and "type n \<in> set types"
    and "amount_error (amount n) = None"
proof -
  have e: "validation_errors rt c = []"
    using assms by (auto simp: save_def validated_def split: if_splits)
  note f = save_fields [OF assms]
  from e have g: "description_error rt (c_description c) = None"
      "category_error rt (c_category c) = None" "type_error rt (c_type c) = None"
      "amount_error (c_amount c) = None"
    by (simp_all add: validation_errors_Nil)
  from g(1) show "description n \<noteq> []" "length (description n) \<le> 200"
    by (auto simp: f(2) description_error_def split: if_splits)
  from g(2) show "category n \<in> set categories"
    by (auto simp: f(3) category_error_def split: if_splits)
  from g(3) show "type n \<in> set types"
    by (auto simp: f(4) type_error_def split: if_splits)
  from g(4) show "amount_error (amount n) = None"
    by (simp add: f(5))
qed

text \<open>An update either fails and writes nothing, or writes what \<open>save\<close> returned.\<close>

lemma update_outcome:
  assumes "isValidObjectId rt i" and "findOne (owned_with_id i uid) db = Some old"
  shows "(\<not> success (fst (updateTransaction rt uid i b db)) \<and>
          snd (updateTransaction rt uid i b db) = db) \<or>
         (\<exists>c1 n. assign_description rt (b_description b) (assign_date rt (b_date b) (loaded old)) =
                   Some c1 \<and>
                 save rt old
                   (assign_amount rt (b_amount b)
                      (assign_type (b_type b) (assign_category (b_category b) c1))) = Inr n \<and>
                 updateTransaction rt uid i b db =
                   (ok 200 (Some (Text ''Transaction updated successfully'')) (OneTransaction n),
                    replace_first (owned_with_id i uid) n db))"
proof (cases "assign_description rt (b_description b) (assign_date rt (b_date b) (loaded old))")
  case None
  then show ?thesis by (simp add: update_found [OF assms] failure_def)
next
  case (Some c1)
  show ?thesis
  proof (cases "save rt old
                   (assign_amount rt (b_amount b)
                      (assign_type (b_type b) (assign_category (b_category b) c1)))")
    case (Inl es)
    then show ?thesis by (simp add: update_found [OF assms] Some validation_failure_def)
  next
    case (Inr n)
    then show ?thesis by (simp add: update_found [OF assms] Some)
  qed
qed

text \<open>
  C10. Take an update of a document \<open>old\<close> that the caller owns and that is stored in
  line with the schema. The handler trims a supplied description with
  \<open>String.prototype.trim\<close> and the schema trims it again when it is assigned, so the
  description that is validated and stored for the supplied string \<open>x\<close> is
  \<open>String_trim rt (String_trim rt x)\<close>.

  First part: when every field of the body is either skipped (it is falsy, or, for type
  and amount, it fails the guard of the handler) or valid, the response is 200 with
  \<open>success: true\<close>, and the document written has the old value in every skipped field
  and the supplied value in every other field.

  Second part, for every body whatever: the update either fails and leaves the collection
  as it was, or answers 200 with the document \<open>n\<close> it has written in the place of
  \<open>old\<close>; \<open>n\<close> has the old value in every field that the body leaves falsy or that
  fails the guard, its description is not empty, its category and type are of the closed
  sets, and its amount passes the amount rule of the schema, so it is not 0.
\<close>

theorem update_skips_invalid_fields:
  assumes "isValidObjectId rt i" and "findOne (owned_with_id i uid) db = Some old"
    and "schema_valid rt old"
  shows
    "(((\<not> truthy (b_date b) \<and> t = date old) \<or>
       (truthy (b_date b) \<and> new_Date rt (b_date b) = Some t)) \<and>
      ((\<not> truthy (b_description b) \<and> s = description old) \<or>
       (\<exists>x. b_description b = JStr x \<and> x \<noteq> [] \<and> s = String_trim rt (String_trim rt x) \<and>
            s \<noteq> [] \<and> length s \<le> 200)) \<and>
      ((\<not> truthy (b_category b) \<and> c = category old) \<or>
       (b_category b = JStr c \<and> c \<in> set categories)) \<and>
      ((\<not> (truthy (b_type b) \<and> is_income_or_expense (b_type b)) \<and> ty = type old) \<or>
       (b_type b = JStr ty \<and> is_income_or_expense (b_type b))) \<and>
      ((\<not> (truthy (b_amount b) \<and> gt_zero rt (b_amount b)) \<and> a = amount old) \<or>
       (truthy (b_amount b) \<and> gt_zero rt (b_amount b) \<and> a = parseFloat rt (b_amount b) \<and>
        amount_error a = None)) \<longrightarrow>
      updateTransaction rt uid i b db =
        (ok 200 (Some (Text ''Transaction updated successfully''))
           (OneTransaction
              (touch rt old
                 (old\<lparr>date := t, description := s, category := c, type := ty, amount := a\<rparr>))),
         replace_first (owned_with_id i uid)
           (touch rt old
              (old\<lparr>date := t, description := s, category := c, type := ty, amount := a\<rparr>))
           db)) \<and>
     ((\<not> success (fst (updateTransaction rt uid i b db)) \<and>
       snd (updateTransaction rt uid i b db) = db) \<or>
      (\<exists>n. updateTransaction rt uid i b db =
             (ok 200 (Some (Text ''Transaction updated successfully'')) (OneTransaction n),
              replace_first (owned_with_id i uid) n db) \<and>
           tid n = tid old \<and> userId n = userId old \<and>
           (\<not> truthy (b_date b) \<longrightarrow> date n = date old) \<and>
           (\<not> truthy (b_description b) \<longrightarrow> description n = description old) \<and>
           (\<not> truthy (b_category b) \<longrightarrow> category n = category old) \<and>
           (\<not> (truthy (b_type b) \<and> is_income_or_expense (b_type b)) \<longrightarrow> type n = type old) \<and>
           (\<not> (truthy (b_amount b) \<and> gt_zero rt (b_amount b)) \<longrightarrow> amount n = amount old) \<and>
           description n \<noteq> [] \<and> length (description n) \<le> 200 \<and>
           category n \<in> set categories \<and> type n \<in> set types \<and>
           amount_error (amount n) = None \<and> amount n \<noteq> Fin 0))"
proof (intro conjI impI)
  note v = schema_valid_fields [OF assms(3)]
  assume h: "((\<not> truthy (b_date b) \<and> t = date old) \<or>
       (truthy (b_date b) \<and> new_Date rt (b_date b) = Some t)) \<and>
      ((\<not> truthy (b_description b) \<and> s = description old) \<or>
       (\<exists>x. b_description b = JStr x \<and> x \<noteq> [] \<and> s = String_trim rt (String_trim rt x) \<and>
            s \<noteq> [] \<and> length s \<le> 200)) \<and>
      ((\<not> truthy (b_category b) \<and> c = category old) \<or>
       (b_category b = JStr c \<and> c \<in> set categories)) \<and>
      ((\<not> (truthy (b_type b) \<and> is_income_or_expense (b_type b)) \<and> ty = type old) \<or>
       (b_type b = JStr ty \<and> is_income_or_expense (b_type b))) \<and>
      ((\<not> (truthy (b_amount b) \<and> gt_zero rt (b_amount b)) \<and> a = amount old) \<or>
       (truthy (b_amount b) \<and> gt_zero rt (b_amount b) \<and> a = parseFloat rt (b_amount b) \<and>
        amount_error a = None))"
  then have D: "(\<not> truthy (b_date b) \<and> t = date old) \<or>
            (truthy (b_date b) \<and> new_Date rt (b_date b) = Some t)"
    and S: "(\<not> truthy (b_description b) \<and> s = description old) \<or>
            (\<exists>x. b_description b = JStr x \<and> x \<noteq> [] \<and> s = String_trim rt (String_trim rt x) \<and>
                 s \<noteq> [] \<and> length s \<le> 200)"
    and C: "(\<not> truthy (b_category b) \<and> c = category old) \<or>
            (b_category b = JStr c \<and> c \<in> set categories)"
    and T: "(\<not> (truthy (b_type b) \<and> is_income_or_expense (b_type b)) \<and> ty = type old) \<or>
            (b_type b = JStr ty \<and> is_income_or_expense (b_type b))"
    and A: "(\<not> (truthy (b_amount b) \<and> gt_zero rt (b_amount b)) \<and> a = amount old) \<or>
            (truthy (b_amount b) \<and> gt_zero rt (b_amount b) \<and> a = parseFloat rt (b_amount b) \<and>
             amount_error a = None)"
    by blast+
  have 1: "assign_date rt (b_date b) (loaded old) = (loaded old)\<lparr>c_date := Some t\<rparr>"
    using D by (auto simp: assign_date_def loaded_def)
  obtain w where 2: "assign_description rt (b_description b) ((loaded old)\<lparr>c_date := Some t\<rparr>) =
      Some ((loaded old)\<lparr>c_date := Some t, c_description := w\<rparr>)"
    and w: "cast_description rt w = s"
  proof (rule disjE [OF S])
    assume k: "\<not> truthy (b_description b) \<and> s = description old"
    have "assign_description rt (b_description b) ((loaded old)\<lparr>c_date := Some t\<rparr>) =
        Some ((loaded old)\<lparr>c_date := Some t, c_description := JStr (description old)\<rparr>)"
      using k by (simp add: assign_description_def loaded_def)
    moreover have "cast_description rt (JStr (description old)) = s"
      using k v(1) by (simp add: cast_description_def)
    ultimately show thesis by (rule that)
  next
    assume "\<exists>x. b_description b = JStr x \<and> x \<noteq> [] \<and> s = String_trim rt (String_trim rt x) \<and>
                 s \<noteq> [] \<and> length s \<le> 200"
    then obtain x where k: "b_description b = JStr x" "x \<noteq> []"
        "s = String_trim rt (String_trim rt x)"
      by blast
    have "assign_description rt (b_description b) ((loaded old)\<lparr>c_date := Some t\<rparr>) =
        Some ((loaded old)\<lparr>c_date := Some t, c_description := JStr (String_trim rt x)\<rparr>)"
      using k(1,2) by (simp add: assign_description_def loaded_def)
    moreover have "cast_description rt (JStr (String_trim rt x)) = s"
      using k(3) by (simp add: cast_description_def)
    ultimately show thesis by (rule that)
  qed
  have 3: "assign_category (b_category b) ((loaded old)\<lparr>c_date := Some t, c_description := w\<rparr>) =
      (loaded old)\<lparr>c_date := Some t, c_description := w, c_category := JStr c\<rparr>"
    using C category_nonempty [of c] by (auto simp: assign_category_def loaded_def)
  have 4: "assign_type (b_type b)
        ((loaded old)\<lparr>c_date := Some t, c_description := w, c_category := JStr c\<rparr>) =
      (loaded old)\<lparr>c_date := Some t, c_description := w, c_category := JStr c,
        c_type := JStr ty\<rparr>"
    using T truthy_income_or_expense [of "b_type b"] by (auto simp: assign_type_def loaded_def)
  have 5: "assign_amount rt (b_amount b)
        ((loaded old)\<lparr>c_date := Some t, c_description := w, c_category := JStr c,
          c_type := JStr ty\<rparr>) =
      \<lparr>c_userId = userId old, c_date = Some t, c_description = w,
       c_category = JStr c, c_type = JStr ty, c_amount = a\<rparr>"
    using A by (auto simp: assign_amount_def loaded_def)
  have s: "s \<noteq> []" "length s \<le> 200"
    using S v(2,3) by auto
  have c: "c \<in> set categories" using C v(4) by auto
  have ty: "ty \<in> set types" using T v(5) by (auto simp: income_or_expense_types)
  have a: "amount_error a = None" using A v(6) by auto
  show "updateTransaction rt uid i b db =
        (ok 200 (Some (Text ''Transaction updated successfully''))
           (OneTransaction
              (touch rt old
                 (old\<lparr>date := t, description := s, category := c, type := ty, amount := a\<rparr>))),
         replace_first (owned_with_id i uid)
           (touch rt old
              (old\<lparr>date := t, description := s, category := c, type := ty, amount := a\<rparr>))
           db)"
    by (simp add: update_found [OF assms(1,2)] 1 2 3 4 5 save_valid [OF w s c ty a])
next
  note v = schema_valid_fields [OF assms(3)]
  show "(\<not> success (fst (updateTransaction rt uid i b db)) \<and>
       snd (updateTransaction rt uid i b db) = db) \<or>
      (\<exists>n. updateTransaction rt uid i b db =
             (ok 200 (Some (Text ''Transaction updated successfully'')) (OneTransaction n),
              replace_first (owned_with_id i uid) n db) \<and>
           tid n = tid old \<and> userId n = userId old \<and>
           (\<not> truthy (b_date b) \<longrightarrow> date n = date old) \<and>
           (\<not> truthy (b_description b) \<longrightarrow> description n = description old) \<and>
           (\<not> truthy (b_category b) \<longrightarrow> category n = category old) \<and>
           (\<not> (truthy (b_type b) \<and> is_income_or_expense (b_type b)) \<longrightarrow> type n = type old) \<and>
           (\<not> (truthy (b_amount b) \<and> gt_zero rt (b_amount b)) \<longrightarrow> amount n = amount old) \<and>
           description n \<noteq> [] \<and> length (description n) \<le> 200 \<and>
           category n \<in> set categories \<and> type n \<in> set types \<and>
           amount_error (amount n) = None \<and> amount n \<noteq> Fin 0)"
  proof (rule disjE [OF update_outcome [OF assms(1,2), of b]])
    assume "\<not> success (fst (updateTransaction rt uid i b db)) \<and>
          snd (updateTransaction rt uid i b db) = db"
    then show ?thesis by (rule disjI1)
  next
    assume "\<exists>c1 n. assign_description rt (b_description b) (assign_date rt (b_date b) (loaded old)) =
                   Some c1 \<and>
                 save rt old
                   (assign_amount rt (b_amount b)
                      (assign_type (b_type b) (assign_category (b_category b) c1))) = Inr n \<and>
                 updateTransaction rt uid i b db =
                   (ok 200 (Some (Text ''Transaction updated successfully'')) (OneTransaction n),
                    replace_first (owned_with_id i uid) n db)"
    then obtain c1 n
      where c1: "assign_description rt (b_description b) (assign_date rt (b_date b) (loaded old)) =
                   Some c1"
        and sv: "save rt old
                   (assign_amount rt (b_amount b)
                      (assign_type (b_type b) (assign_category (b_category b) c1))) = Inr n"
        and u: "updateTransaction rt uid i b db =
                   (ok 200 (Some (Text ''Transaction updated successfully'')) (OneTransaction n),
                    replace_first (owned_with_id i uid) n db)"
      by blast
    note f = save_fields [OF sv]
    note p = save_passed [OF sv]
    note g = final_candidate_fields [OF c1, where a = "b_amount b" and ty = "b_type b"
        and ca = "b_category b"]
    have i1: "tid n = tid old" by (rule f(6))
    have i2: "userId n = userId old" using f(7) g(7) by simp
    have k1: "\<not> truthy (b_date b) \<longrightarrow> date n = date old"
      using f(1) g(1) by auto
    have k2: "\<not> truthy (b_description b) \<longrightarrow> description n = description old"
      using f(2) g(5) v(1) by (auto simp: cast_description_def)
    have k3: "\<not> truthy (b_category b) \<longrightarrow> category n = category old"
      using f(3) g(2) by auto
    have k4: "\<not> (truthy (b_type b) \<and> is_income_or_expense (b_type b)) \<longrightarrow> type n = type old"
      using f(4) g(3) by auto
    have k5: "\<not> (truthy (b_amount b) \<and> gt_zero rt (b_amount b)) \<longrightarrow> amount n = amount old"
      using f(5) g(4) by auto
    have z: "amount n \<noteq> Fin 0" by (rule amount_error_nonzero [OF p(5)])
    show ?thesis
      by (rule disjI2, rule exI [of _ n]) (intro conjI u i1 i2 k1 k2 k3 k4 k5 p z)
  qed
qed

theorem update_skips_invalid_fields_witness:
  "isValidObjectId example_rt (tid example_txn) \<and>
   findOne (owned_with_id (tid example_txn) ''alice'') example_db = Some example_txn \<and>
   schema_valid example_rt example_txn \<and>
   updateTransaction example_rt ''alice'' (tid example_txn) skip_body example_db =
     (ok 200 (Some (Text ''Transaction updated successfully''))
        (OneTransaction
           (example_txn\<lparr>category := ''Transportation'', updatedAt := Date_now example_rt\<rparr>)),
      [example_txn\<lparr>category := ''Transportation'', updatedAt := Date_now example_rt\<rparr>,
       salary_txn, bob_txn, train_txn]) \<and>
   updateTransaction example_rt ''alice'' (tid example_txn) invalid_body example_db =
     (ok 200 (Some (Text ''Transaction updated successfully'')) (OneTransaction example_txn),
      example_db)"
proof -
  have c: "''Transportation'' \<in> set categories" by (simp add: categories_def)
  have 1: "updateTransaction example_rt ''alice'' (tid example_txn) skip_body example_db =
     (ok 200 (Some (Text ''Transaction updated successfully''))
        (OneTransaction
           (example_txn\<lparr>category := ''Transportation'', updatedAt := Date_now example_rt\<rparr>)),
      [example_txn\<lparr>category := ''Transportation'', updatedAt := Date_now example_rt\<rparr>,
       salary_txn, bob_txn, train_txn])"
    using conjunct1 [OF update_skips_invalid_fields [OF example_txn_found example_txn_valid,
        where b = skip_body and t = "date example_txn" and s = "description example_txn"
          and c = "''Transportation''" and ty = "type example_txn" and a = "amount example_txn"]] c
    by (simp add: skip_body_def is_income_or_expense_def touch_def example_db_def
        owned_with_id_def example_txn_def)
  have 2: "updateTransaction example_rt ''alice'' (tid example_txn) invalid_body example_db =
     (ok 200 (Some (Text ''Transaction updated successfully'')) (OneTransaction example_txn),
      example_db)"
    using conjunct1 [OF update_skips_invalid_fields [OF example_txn_found example_txn_valid,
        where b = invalid_body and t = "date example_txn" and s = "description example_txn"
          and c = "category example_txn" and ty = "type example_txn" and a = "amount example_txn"]]
    by (simp add: invalid_body_def is_income_or_expense_def gt_zero_def touch_def example_db_def
        owned_with_id_def example_txn_def)
  show ?thesis using example_txn_found example_txn_valid 1 2 by blast
qed

subsection \<open>Validation of an update\<close>

lemma update_rejected:
  assumes "isValidObjectId rt i" and "findOne (owned_with_id i uid) db = Some old"
    and "assign_description rt (b_description b) (assign_date rt (b_date b) (loaded old)) = Some c1"
    and "e \<in> set (validation_errors rt
            (assign_amount rt (b_amount b) (assign_type (b_type b) (assign_category (b_category b) c1))))"
  shows "\<exists>es. updateTransaction rt uid i b db = (validation_failure es, db) \<and> e \<in> set es"
proof -
  have "updateTransaction rt uid i b db =
      (validation_failure (validation_errors rt
         (assign_amount rt (b_amount b) (assign_type (b_type b) (assign_category (b_category b) c1)))),
       db)"
    by (simp add: update_found [OF assms(1,2)] assms(3) save_invalid [OF assms(4)])
  with assms(4) show ?thesis by blast
qed

lemma error_mem:
  "description_error rt (c_description c) = Some e \<Longrightarrow> e \<in> set (validation_errors rt c)"
  "category_error rt (c_category c) = Some e \<Longrightarrow> e \<in> set (validation_errors rt c)"
  by (simp_all add: validation_errors_def)

text \<open>
  C6, as the claim states it, fails: an update whose body has the type "transfer" and
  the amount -5 is answered with 200 and \<open>success: true\<close>, and the document is
  left as it was. Neither InvalidType nor InvalidAmount is reported.
\<close>

theorem update_invalid_fields_counterexample:
  "\<not> is_income_or_expense (b_type invalid_body) \<and> b_amount invalid_body = JNum (Fin (- 5)) \<and>
   updateTransaction example_rt ''alice'' (tid example_txn) invalid_body example_db =
     (ok 200 (Some (Text ''Transaction updated successfully'')) (OneTransaction example_txn),
      example_db) \<and>
   success (fst (updateTransaction example_rt ''alice'' (tid example_txn) invalid_body example_db))"
proof -
  have t: "\<not> is_income_or_expense (b_type invalid_body)"
    by (simp add: invalid_body_def is_income_or_expense_def)
  have a: "\<not> (truthy (b_amount invalid_body) \<and> gt_zero example_rt (b_amount invalid_body))"
    by (simp add: invalid_body_def gt_zero_def)
  have s: "save example_rt example_txn (loaded example_txn) = Inr example_txn"
    using example_txn_valid by (simp add: save_def schema_valid_def)
  have "updateTransaction example_rt ''alice'' (tid example_txn) invalid_body example_db =
     (ok 200 (Some (Text ''Transaction updated successfully'')) (OneTransaction example_txn),
      replace_first (owned_with_id (tid example_txn) ''alice'') example_txn example_db)"
  proof -
    have d: "assign_description example_rt (b_description invalid_body)
          (assign_date example_rt (b_date invalid_body) (loaded example_txn)) =
        Some (loaded example_txn)"
      by (simp add: invalid_body_def assign_date_def assign_description_def)
    have c: "assign_category (b_category invalid_body) (loaded example_txn) = loaded example_txn"
      by (simp add: invalid_body_def assign_category_def)
    show ?thesis
      by (simp add: update_found [OF example_txn_found] d c assign_type_skip [OF t]
          assign_amount_skip [OF a] s)
  qed
  then show ?thesis
    using t by (simp add: example_db_def owned_with_id_def example_txn_def ok_def invalid_body_def)
qed

text \<open>
  C6, amended. Take an update of a document the caller owns. The description that is
  validated for a supplied string \<open>x\<close> is \<open>x\<close> trimmed by the handler and again by the
  schema.

  \<^item> A supplied description that is a non-empty string fails the update with 400
    "Validation error", the collection unchanged, when it is empty after trimming
    ("Description is required") and when it is longer than 200 characters after trimming
    ("Description cannot exceed 200 characters").
  \<^item> When the description of the body is falsy or a string: a supplied category that is a
    non-empty string outside the closed set fails the update in the same way, and so
    does a supplied amount that is truthy and greater than 0 and that the amount rule of
    the schema rejects.
  \<^item> A supplied type that is not income or expense, and a supplied amount that is falsy
    or not greater than 0, are treated exactly as if the field were omitted: the response
    and the collection are those of the same body without the field.
  \<^item> When the document is stored in line with the schema and the update answers 200, the
    collection is the old one with the returned document in the place of the old
    document, and every omitted field of the returned document has its old value.
\<close>

theorem update_validates_assigned_fields:
  assumes "isValidObjectId rt i" and "findOne (owned_with_id i uid) db = Some old"
  shows
    "(b_description b = JStr x \<and> x \<noteq> [] \<and> String_trim rt (String_trim rt x) = [] \<longrightarrow>
        (\<exists>es. updateTransaction rt uid i b db = (validation_failure es, db) \<and>
              ValidatorError ''Description is required'' \<in> set es)) \<and>
     (b_description b = JStr x \<and> x \<noteq> [] \<and> 200 < length (String_trim rt (String_trim rt x)) \<longrightarrow>
        (\<exists>es. updateTransaction rt uid i b db = (validation_failure es, db) \<and>
              ValidatorError ''Description cannot exceed 200 characters'' \<in> set es)) \<and>
     ((\<not> truthy (b_description b) \<or> b_description b = JStr x) \<and>
      b_category b = JStr c \<and> c \<noteq> [] \<and> c \<notin> set categories \<longrightarrow>
        (\<exists>es. updateTransaction rt uid i b db = (validation_failure es, db) \<and>
              EnumError ''category'' c \<in> set es)) \<and>
     ((\<not> truthy (b_description b) \<or> b_description b = JStr x) \<and>
      truthy (b_amount b) \<and> gt_zero rt (b_amount b) \<and>
      amount_error (parseFloat rt (b_amount b)) = Some e \<longrightarrow>
        (\<exists>es. updateTransaction rt uid i b db = (validation_failure es, db) \<and> e \<in> set es)) \<and>
     (\<not> is_income_or_expense (b_type b) \<longrightarrow>
        updateTransaction rt uid i b db = updateTransaction rt uid i (b\<lparr>b_type := Undefined\<rparr>) db) \<and>
     (\<not> (truthy (b_amount b) \<and> gt_zero rt (b_amount b)) \<longrightarrow>
        updateTransaction rt uid i b db = updateTransaction rt uid i (b\<lparr>b_amount := Undefined\<rparr>) db) \<and>
     (schema_valid rt old \<and>
      updateTransaction rt uid i b db =
        (ok 200 (Some (Text ''Transaction updated successfully'')) (OneTransaction n), db') \<longrightarrow>
        db' = replace_first (owned_with_id i uid) n db \<and>
        (b_date b = Undefined \<longrightarrow> date n = date old) \<and>
        (b_description b = Undefined \<longrightarrow> description n = description old) \<and>
        (b_category b = Undefined \<longrightarrow> category n = category old) \<and>
        (b_type b = Undefined \<longrightarrow> type n = type old) \<and>
        (b_amount b = Undefined \<longrightarrow> amount n = amount old))"
proof (intro conjI impI)
  assume a: "b_description b = JStr x \<and> x \<noteq> [] \<and> String_trim rt (String_trim rt x) = []"
  then obtain c1 where c1: "assign_description rt (b_description b) (assign_date rt (b_date b) (loaded old)) = Some c1"
    using assign_description_string [of "b_description b"] by blast
  let ?f = "assign_amount rt (b_amount b) (assign_type (b_type b) (assign_category (b_category b) c1))"
  have "c_description ?f = JStr (String_trim rt x)"
    using a final_candidate_fields(6) [OF c1] by blast
  then have "description_error rt (c_description ?f) = Some (ValidatorError ''Description is required'')"
    using a by (simp add: description_error_def cast_description_def)
  then show "\<exists>es. updateTransaction rt uid i b db = (validation_failure es, db) \<and>
      ValidatorError ''Description is required'' \<in> set es"
    by (intro update_rejected [OF assms c1] error_mem(1))
next
  assume a: "b_description b = JStr x \<and> x \<noteq> [] \<and>
      200 < length (String_trim rt (String_trim rt x))"
  then obtain c1 where c1: "assign_description rt (b_description b) (assign_date rt (b_date b) (loaded old)) = Some c1"
    using assign_description_string [of "b_description b"] by blast
  let ?f = "assign_amount rt (b_amount b) (assign_type (b_type b) (assign_category (b_category b) c1))"
  have "c_description ?f = JStr (String_trim rt x)"
    using a final_candidate_fields(6) [OF c1] by blast
  then have "description_error rt (c_description ?f) =
      Some (ValidatorError ''Description cannot exceed 200 characters'')"
    using a by (auto simp: description_error_def cast_description_def)
  then show "\<exists>es. updateTransaction rt uid i b db = (validation_failure es, db) \<and>
      ValidatorError ''Description cannot exceed 200 characters'' \<in> set es"
    by (intro update_rejected [OF assms c1] error_mem(1))
next
  assume a: "(\<not> truthy (b_description b) \<or> b_description b = JStr x) \<and>
      b_category b = JStr c \<and> c \<noteq> [] \<and> c \<notin> set categories"
  then obtain c1 where c1: "assign_description rt (b_description b) (assign_date rt (b_date b) (loaded old)) = Some c1"
    using assign_description_string [of "b_description b"] by blast
  let ?f = "assign_amount rt (b_amount b) (assign_type (b_type b) (assign_category (b_category b) c1))"
  have "c_category ?f = JStr c"
    using a final_candidate_fields(2) [OF c1] by simp
  then have "category_error rt (c_category ?f) = Some (EnumError ''category'' c)"
    using a by (simp add: category_error_def)
  then show "\<exists>es. updateTransaction rt uid i b db = (validation_failure es, db) \<and>
      EnumError ''category'' c \<in> set es"
    by (intro update_rejected [OF assms c1] error_mem(2))
next
  assume a: "(\<not> truthy (b_description b) \<or> b_description b = JStr x) \<and>
      truthy (b_amount b) \<and> gt_zero rt (b_amount b) \<and>
      amount_error (parseFloat rt (b_amount b)) = Some e"
  then obtain c1 where c1: "assign_description rt (b_description b) (assign_date rt (b_date b) (loaded old)) = Some c1"
    using assign_description_string [of "b_description b"] by blast
  let ?f = "assign_amount rt (b_amount b) (assign_type (b_type b) (assign_category (b_category b) c1))"
  have "c_amount ?f = parseFloat rt (b_amount b)"
    using a final_candidate_fields(4) [OF c1] by simp
  then have "amount_error (c_amount ?f) = Some e"
    using a by simp
  then show "\<exists>es. updateTransaction rt uid i b db = (validation_failure es, db) \<and> e \<in> set es"
    by (intro update_rejected [OF assms c1] amount_error_mem)
next
  assume "\<not> is_income_or_expense (b_type b)"
  then show "updateTransaction rt uid i b db = updateTransaction rt uid i (b\<lparr>b_type := Undefined\<rparr>) db"
    by (simp add: update_found [OF assms] assign_type_def cong: option.case_cong)
next
  assume "\<not> (truthy (b_amount b) \<and> gt_zero rt (b_amount b))"
  then have sk: "assign_amount rt (b_amount b) c0 = c0" "assign_amount rt Undefined c0 = c0" for c0
    by (simp_all add: assign_amount_skip)
  show "updateTransaction rt uid i b db = updateTransaction rt uid i (b\<lparr>b_amount := Undefined\<rparr>) db"
    by (simp add: update_found [OF assms] sk cong: option.case_cong)
next
  assume h: "schema_valid rt old \<and>
      updateTransaction rt uid i b db =
        (ok 200 (Some (Text ''Transaction updated successfully'')) (OneTransaction n), db')"
  then obtain c1 where c1: "assign_description rt (b_description b) (assign_date rt (b_date b) (loaded old)) = Some c1"
    by (cases "assign_description rt (b_description b) (assign_date rt (b_date b) (loaded old))")
      (auto simp: update_found [OF assms] failure_def ok_def)
  let ?f = "assign_amount rt (b_amount b) (assign_type (b_type b) (assign_category (b_category b) c1))"
  have sv: "save rt old ?f = Inr n"
    using h by (cases "save rt old ?f")
      (auto simp: update_found [OF assms] c1 validation_failure_def ok_def)
  note f = save_fields [OF sv]
  note v = schema_valid_fields [OF conjunct1 [OF h]]
  show "db' = replace_first (owned_with_id i uid) n db"
    using h by (simp add: update_found [OF assms] c1 sv)
  {
    assume "b_date b = Undefined"
    then show "date n = date old"
      using f(1) final_candidate_fields(1) [OF c1, where a = "b_amount b" and ty = "b_type b" and ca = "b_category b"]
      by simp
  next
    assume "b_description b = Undefined"
    then show "description n = description old"
      using f(2) final_candidate_fields(5) [OF c1, where a = "b_amount b" and ty = "b_type b" and ca = "b_category b"] v(1)
      by (simp add: cast_description_def)
  next
    assume "b_category b = Undefined"
    then show "category n = category old"
      using f(3) final_candidate_fields(2) [OF c1, where a = "b_amount b" and ty = "b_type b" and ca = "b_category b"]
      by simp
  next
    assume "b_type b = Undefined"
    then show "type n = type old"
      using f(4) final_candidate_fields(3) [OF c1, where a = "b_amount b" and ty = "b_type b" and ca = "b_category b"]
      by simp
  next
    assume "b_amount b = Undefined"
    then show "amount n = amount old"
      using f(5) final_candidate_fields(4) [OF c1, where a = "b_amount b" and ty = "b_type b" and ca = "b_category b"]
      by simp
  }
qed

theorem update_validates_assigned_fields_witness:
  "isValidObjectId example_rt (tid example_txn) \<and>
   findOne (owned_with_id (tid example_txn) ''alice'') example_db = Some example_txn \<and>
   String_trim example_rt (String_trim example_rt ''   '') = [] \<and>
   (\<exists>es. updateTransaction example_rt ''alice'' (tid example_txn)
            (invalid_body\<lparr>b_description := JStr ''   ''\<rparr>) example_db =
           (validation_failure es, example_db) \<and>
         ValidatorError ''Description is required'' \<in> set es) \<and>
   (\<exists>es. updateTransaction example_rt ''alice'' (tid example_txn)
            (invalid_body\<lparr>b_category := JStr ''Groceries''\<rparr>) example_db =
           (validation_failure es, example_db) \<and>
         EnumError ''category'' ''Groceries'' \<in> set es) \<and>
   (\<exists>es. updateTransaction example_rt ''alice'' (tid example_txn)
            (invalid_body\<lparr>b_amount := JNum PInf\<rparr>) example_db =
           (validation_failure es, example_db) \<and>
         ValidatorError ''Amount must be a valid positive number'' \<in> set es) \<and>
   updateTransaction example_rt ''alice'' (tid example_txn) invalid_body example_db =
     updateTransaction example_rt ''alice'' (tid example_txn)
       (invalid_body\<lparr>b_type := Undefined\<rparr>) example_db"
proof -
  note u = update_validates_assigned_fields [OF example_txn_found]
  have t: "String_trim example_rt (String_trim example_rt ''   '') = []"
    by (simp add: example_rt_def latin1_trim_def latin1_space_def)
  have 1: "\<exists>es. updateTransaction example_rt ''alice'' (tid example_txn)
            (invalid_body\<lparr>b_description := JStr ''   ''\<rparr>) example_db =
           (validation_failure es, example_db) \<and>
         ValidatorError ''Description is required'' \<in> set es"
    using u [where b = "invalid_body\<lparr>b_description := JStr ''   ''\<rparr>" and x = "''   ''"] t
    by simp
  have 2: "\<exists>es. updateTransaction example_rt ''alice'' (tid example_txn)
            (invalid_body\<lparr>b_category := JStr ''Groceries''\<rparr>) example_db =
           (validation_failure es, example_db) \<and>
         EnumError ''category'' ''Groceries'' \<in> set es"
    using u [where b = "invalid_body\<lparr>b_category := JStr ''Groceries''\<rparr>" and c = "''Groceries''"]
    by (simp add: invalid_body_def categories_def)
  have 3: "\<exists>es. updateTransaction example_rt ''alice'' (tid example_txn)
            (invalid_body\<lparr>b_amount := JNum PInf\<rparr>) example_db =
           (validation_failure es, example_db) \<and>
         ValidatorError ''Amount must be a valid positive number'' \<in> set es"
    using u [where b = "invalid_body\<lparr>b_amount := JNum PInf\<rparr>"
        and e = "ValidatorError ''Amount must be a valid positive number''"]
    by (simp add: invalid_body_def gt_zero_def amount_error_def)
  have 4: "updateTransaction example_rt ''alice'' (tid example_txn) invalid_body example_db =
     updateTransaction example_rt ''alice'' (tid example_txn)
       (invalid_body\<lparr>b_type := Undefined\<rparr>) example_db"
    using u [where b = invalid_body]
    by (simp add: invalid_body_def is_income_or_expense_def)
  show ?thesis using example_txn_found t 1 2 3 4 by blast
qed

subsection \<open>Isolation of users\<close>

lemma filter_own:
  "(\<And>d. P d \<Longrightarrow> userId d = uid) \<Longrightarrow> filter P (own uid db) = filter P db"
  unfolding own_def by (induction db) auto

lemma findOne_own:
  "findOne (owned_with_id i uid) (own uid db) = findOne (owned_with_id i uid) db"
  unfolding own_def findOne_def by (induction db) (auto simp: owned_with_id_def)

lemma replace_first_others:
  "userId n = uid \<Longrightarrow> others uid (replace_first (owned_with_id i uid) n db) = others uid db"
  unfolding others_def by (induction db) (auto simp: owned_with_id_def)

lemma replace_first_userIds:
  "userId n = uid \<Longrightarrow> map userId (replace_first (owned_with_id i uid) n db) = map userId db"
  by (induction db) (auto simp: owned_with_id_def)

lemma delete_first_others:
  "others uid (delete_first (owned_with_id i uid) db) = others uid db"
  unfolding others_def by (induction db) (auto simp: owned_with_id_def)

lemma others_append:
  "list_all (\<lambda>d. userId d = uid) new \<Longrightarrow> others uid (db @ new) = others uid db"
  unfolding others_def by (induction new) (auto simp: list_all_iff)

lemma validated_userId: "validated rt i c u cand = Inr d \<Longrightarrow> userId d = c_userId cand"
  by (auto simp: validated_def split: if_splits option.splits)

lemma insert_valid_owned:
  "list_all (\<lambda>c. c_userId c = uid) cs \<Longrightarrow> list_all (\<lambda>d. userId d = uid) (insert_valid rt k cs)"
  by (induction cs arbitrary: k) (auto split: sum.splits dest: validated_userId)

lemma stamp_userId_field: "stamp rt uid (r\<lparr>b_userId := v\<rparr>) = stamp rt uid r"
  by (simp add: stamp_def)

lemma stamped_owned: "list_all (\<lambda>c. c_userId c = uid) (map (stamp rt uid) rows)"
  by (simp add: list_all_iff stamp_def)

lemma create_store:
  "\<exists>new. snd (createTransaction rt uid b db) = db @ new \<and> list_all (\<lambda>d. userId d = uid) new"
proof (cases "\<exists>t. snd (createTransaction rt uid b db) = db @ [t] \<and> userId t = uid")
  case True
  then obtain t where "snd (createTransaction rt uid b db) = db @ [t]" "userId t = uid" by blast
  then have "snd (createTransaction rt uid b db) = db @ [t] \<and> list_all (\<lambda>d. userId d = uid) [t]"
    by simp
  then show ?thesis by blast
next
  case False
  then have "snd (createTransaction rt uid b db) = db"
    by (auto simp: createTransaction_def split: if_splits jsval.splits sum.splits
        dest: validated_userId)
  then have "snd (createTransaction rt uid b db) = db @ [] \<and> list_all (\<lambda>d. userId d = uid) []"
    by simp
  then show ?thesis by blast
qed

lemma bulk_store:
  "\<exists>new. snd (bulkCreateTransactions rt (Transaction_insertMany rt) uid transactions db) = db @ new \<and>
     list_all (\<lambda>d. userId d = uid) new"
proof (cases "transactions = None \<or> transactions = Some []")
  case True
  then have "snd (bulkCreateTransactions rt (Transaction_insertMany rt) uid transactions db) = db @ [] \<and>
      list_all (\<lambda>d. userId d = uid) []"
    by (simp add: bulk_empty)
  then show ?thesis by blast
next
  case False
  then obtain rows where r: "transactions = Some rows" "rows \<noteq> []" by auto
  have "snd (bulkCreateTransactions rt (Transaction_insertMany rt) uid transactions db) =
      db @ insert_valid rt 0 (map (stamp rt uid) rows) \<and>
      list_all (\<lambda>d. userId d = uid) (insert_valid rt 0 (map (stamp rt uid) rows))"
    using r by (simp add: bulk_resolved insert_valid_owned stamped_owned)
  then show ?thesis by blast
qed

lemma update_store:
  "snd (updateTransaction rt uid i b db) = db \<or>
   (\<exists>n. userId n = uid \<and>
        snd (updateTransaction rt uid i b db) = replace_first (owned_with_id i uid) n db)"
proof (cases "isValidObjectId rt i")
  case False
  then show ?thesis by (simp add: updateTransaction_def)
next
  case True
  show ?thesis
  proof (cases "findOne (owned_with_id i uid) db")
    case None
    then show ?thesis using True by (simp add: updateTransaction_def)
  next
    case (Some old)
    then have o: "userId old = uid"
      using findOne_Some_mem [of "owned_with_id i uid" db old] by (simp add: owned_with_id_def)
    show ?thesis
    proof (cases "assign_description rt (b_description b) (assign_date rt (b_date b) (loaded old))")
      case None
      then show ?thesis by (simp add: update_found [OF True Some])
    next
      case c1: (Some c1)
      let ?f = "assign_amount rt (b_amount b) (assign_type (b_type b) (assign_category (b_category b) c1))"
      show ?thesis
      proof (cases "save rt old ?f")
        case (Inl es)
        then show ?thesis by (simp add: update_found [OF True Some] c1)
      next
        case (Inr n)
        have "userId n = uid"
          using save_fields(7) [OF Inr] final_candidate_fields(7) [OF c1] o by simp
        then show ?thesis using Inr by (auto simp: update_found [OF True Some] c1)
      qed
    qed
  qed
qed

lemma update_reads_own:
  "fst (updateTransaction rt uid i b (own uid db)) = fst (updateTransaction rt uid i b db)"
  by (simp add: updateTransaction_def findOne_own split: option.splits sum.splits)

lemma delete_reads_own:
  "fst (deleteTransaction rt uid i (own uid db)) = fst (deleteTransaction rt uid i db)"
  by (simp add: deleteTransaction_def findOne_own split: option.splits)

lemma list_reads_own:
  "getTransactions rt uid q (own uid db) = getTransactions rt uid q db"
proof -
  have e: "filter (matches (build_filter rt uid q)) (own uid db) =
      filter (matches (build_filter rt uid q)) db"
    by (rule filter_own) (simp add: matches_def build_filter_def)
  show ?thesis unfolding getTransactions_def Let_def e by (rule refl)
qed

lemma statistics_reads_own:
  "getStatistics rt uid q (own uid db) = getStatistics rt uid q db"
proof -
  have e: "filter (stats_match uid (stats_date_filter rt q)) (own uid db) =
      filter (stats_match uid (stats_date_filter rt q)) db"
    by (rule filter_own) (simp add: stats_match_def)
  show ?thesis unfolding getStatistics_def compute_statistics_def Let_def e by (rule refl)
qed

lemma list_owned:
  assumes "getTransactions rt uid q db = ok 200 None (Page ts pg)"
  shows "list_all (\<lambda>d. userId d = uid) ts"
proof -
  let ?m = "sort_desc (filter (matches (build_filter rt uid q)) db)"
  obtain s l where "skip_limit s l ?m = Some ts"
    using assms
    by (auto simp: getTransactions_def Let_def failure_def ok_def split: if_splits option.splits)
  then have "set ts \<subseteq> set ?m"
    by (cases s; cases l) (auto split: if_splits dest: in_set_takeD in_set_dropD)
  then show ?thesis
    by (auto simp: list_all_iff sort_desc_props matches_def build_filter_def)
qed


lemma create_ignores_userId:
  "createTransaction rt uid (b\<lparr>b_userId := v\<rparr>) db = createTransaction rt uid b db"
  by (simp add: createTransaction_def cong: jsval.case_cong)

lemma stamp_userId_comp: "stamp rt uid \<circ> b_userId_update (\<lambda>_. v) = stamp rt uid"
  by (rule ext) (simp add: stamp_def)

lemma bulk_ignores_userId:
  "bulkCreateTransactions rt insertMany uid (Some (map (\<lambda>r. r\<lparr>b_userId := v\<rparr>) rows)) db =
   bulkCreateTransactions rt insertMany uid (Some rows) db"
proof -
  have "map (stamp rt uid) (map (\<lambda>r. r\<lparr>b_userId := v\<rparr>) rows) = map (stamp rt uid) rows"
    by (simp add: stamp_userId_field)
  then show ?thesis
    by (cases rows) (simp_all add: bulkCreateTransactions_def stamp_userId_field stamp_userId_comp)
qed

lemma update_others:
  "others uid (snd (updateTransaction rt uid i b db)) = others uid db"
  using update_store [of rt uid i b db] by (auto simp: replace_first_others)

lemma update_userIds:
  "map userId (snd (updateTransaction rt uid i b db)) = map userId db"
  using update_store [of rt uid i b db] by (auto simp: replace_first_userIds)

lemma delete_others:
  "others uid (snd (deleteTransaction rt uid i db)) = others uid db"
  by (simp add: deleteTransaction_def delete_first_others split: option.splits)

lemma second_page_response:
  "getTransactions example_rt ''alice'' second_page example_db =
     ok 200 None
       (Page [salary_txn]
          \<lparr>currentPage = Fin 2, totalPages = Fin 2, totalTransactions = 3, limit = Fin 2\<rparr>)"
proof -
  have p: "page_number example_rt second_page = Fin 2" "limit_number example_rt second_page = Fin 2"
    by (simp_all add: page_number_def limit_number_def second_page_def example_query_def
        example_rt_def digits_number_def digit_value_def)
  have c: "castable (build_filter example_rt ''alice'' second_page)"
    by (simp add: second_page_filter castable_def)
  have e: "\<lceil>(3 :: rat) / 2\<rceil> = 2" by (rule ceiling_unique) simp_all
  show ?thesis
    unfolding getTransactions_def Let_def
    by (simp add: p c second_page_matching second_page_sorted ToInteger_def e numeral_3_eq_3)
qed

lemma example_others: "others ''alice'' example_db = [bob_txn]"
  by (simp add: others_def example_db_def example_txns)

text \<open>
  C1. The caller's identity alone decides whose documents an operation touches.
  A \<open>userId\<close> in the body of a create or bulk-create request changes nothing; the
  collection after a create or a bulk create is the collection before followed by new
  documents that all carry the caller's userId, and every object handed to
  \<open>insertMany\<close> carries it. The responses of list, statistics, update and delete
  are the same on the whole collection and on the caller's documents alone, and a list
  response holds only documents of the caller. Update and delete leave the documents
  of every other user as they were, and an update changes no document's userId.
\<close>

theorem tenant_isolation:
  "createTransaction rt uid (b\<lparr>b_userId := v\<rparr>) db = createTransaction rt uid b db \<and>
   (\<exists>new. snd (createTransaction rt uid b db) = db @ new \<and>
      list_all (\<lambda>d. userId d = uid) new) \<and>
   bulkCreateTransactions rt insertMany uid (Some (map (\<lambda>r. r\<lparr>b_userId := v\<rparr>) rows)) db =
     bulkCreateTransactions rt insertMany uid (Some rows) db \<and>
   list_all (\<lambda>c. c_userId c = uid) (map (stamp rt uid) rows) \<and>
   (\<exists>new. snd (bulkCreateTransactions rt (Transaction_insertMany rt) uid transactions db) = db @ new \<and>
      list_all (\<lambda>d. userId d = uid) new) \<and>
   getTransactions rt uid q (own uid db) = getTransactions rt uid q db \<and>
   (getTransactions rt uid q db = ok 200 None (Page ts pg) \<longrightarrow>
      list_all (\<lambda>d. userId d = uid) ts) \<and>
   getStatistics rt uid q (own uid db) = getStatistics rt uid q db \<and>
   fst (updateTransaction rt uid i b (own uid db)) = fst (updateTransaction rt uid i b db) \<and>
   others uid (snd (updateTransaction rt uid i b db)) = others uid db \<and>
   map userId (snd (updateTransaction rt uid i b db)) = map userId db \<and>
   fst (deleteTransaction rt uid i (own uid db)) = fst (deleteTransaction rt uid i db) \<and>
   others uid (snd (deleteTransaction rt uid i db)) = others uid db"
  using create_ignores_userId create_store bulk_ignores_userId stamped_owned bulk_store
    list_reads_own list_owned statistics_reads_own update_reads_own update_others
    update_userIds delete_reads_own delete_others
  by (intro conjI impI) blast+

theorem tenant_isolation_witness:
  "createTransaction example_rt ''alice'' (example_body\<lparr>b_userId := JStr ''bob''\<rparr>) example_db =
     createTransaction example_rt ''alice'' example_body example_db \<and>
   getTransactions example_rt ''alice'' second_page example_db =
     ok 200 None
       (Page [salary_txn]
          \<lparr>currentPage = Fin 2, totalPages = Fin 2, totalTransactions = 3, limit = Fin 2\<rparr>) \<and>
   list_all (\<lambda>d. userId d = ''alice'') [salary_txn] \<and>
   others ''alice'' (snd (updateTransaction example_rt ''alice'' (tid bob_txn) skip_body example_db))
     = [bob_txn] \<and>
   others ''alice'' (snd (deleteTransaction example_rt ''alice'' (tid bob_txn) example_db))
     = [bob_txn] \<and>
   getStatistics example_rt ''alice'' example_query (own ''alice'' example_db) =
     getStatistics example_rt ''alice'' example_query example_db"
  using tenant_isolation [where rt = example_rt and uid = "''alice''" and b = example_body
      and v = "JStr ''bob''" and db = example_db and q = second_page and ts = "[salary_txn]"
      and pg = "\<lparr>currentPage = Fin 2, totalPages = Fin 2, totalTransactions = 3, limit = Fin 2\<rparr>"]
    tenant_isolation [where rt = example_rt and uid = "''alice''" and b = skip_body
      and db = example_db and q = example_query and i = "tid bob_txn"]
    second_page_response
  by (simp add: example_others)

end
